theory Spec2Isabelle
  imports Main "HOL-Library.Word"
begin

section \<open>Colours, versions and compile-time configuration\<close>

text \<open>
  The sketch drives two WS2812 strips through FastLED. Only five of FastLED's named colours
  occur in the sources: \<open>CRGB::Black\<close>, \<open>CRGB::White\<close>, \<open>CRGB::Red\<close>, \<open>CRGB::Orange\<close>
  and \<open>CRGB::Green\<close>. They are pairwise different colour codes.
\<close>

datatype CRGB = Black | White | Red | Orange | Green

text \<open>
  The repository holds three versions of the sketch: \<open>garage_parking_assistant.ino\<close>
  (version 0.10, the current one), \<open>unnamed/part_000\<close> (version 0.8) and
  \<open>unnamed/part_001\<close> (version 0.6). Their control flow is the same; they differ in the
  amber test, in the colour shown at distance 0, in the boot animation and in their constants.
\<close>

datatype version = V0_6 | V0_8 | V0_10

text \<open>
  The \<open>#define\<close>s and the initialised globals of a sketch. \<open>stopdistance_static\<close> is the
  value the global \<open>stopdistance\<close> is initialised with in the source text.
\<close>

record config =
  ver :: version
  NUM_LEDS :: nat
  AMBER_LEDS :: int
  DISTANCE_TOLERANCE :: int
  LED_TIMEOUT :: nat
  startdistance :: int
  stopdistance_static :: int
  mirror_LEDs :: bool

definition sketch_v0_10 :: config where
  "sketch_v0_10 = \<lparr>ver = V0_10, NUM_LEDS = 30, AMBER_LEDS = 5, DISTANCE_TOLERANCE = 5,
     LED_TIMEOUT = 60000, startdistance = 400, stopdistance_static = 10, mirror_LEDs = True\<rparr>"

definition sketch_v0_8 :: config where
  "sketch_v0_8 = \<lparr>ver = V0_8, NUM_LEDS = 30, AMBER_LEDS = 5, DISTANCE_TOLERANCE = 5,
     LED_TIMEOUT = 60000, startdistance = 50, stopdistance_static = 10, mirror_LEDs = True\<rparr>"

definition sketch_v0_6 :: config where
  "sketch_v0_6 = \<lparr>ver = V0_6, NUM_LEDS = 15, AMBER_LEDS = 4, DISTANCE_TOLERANCE = 3,
     LED_TIMEOUT = 60000, startdistance = 395, stopdistance_static = 0, mirror_LEDs = True\<rparr>"

definition MAJOR_VER :: nat where "MAJOR_VER = 1"
definition MINOR_VER :: nat where "MINOR_VER = 10"
definition LED_PIN_L :: nat where "LED_PIN_L = 7"
definition LED_PIN_R :: nat where "LED_PIN_R = 8"

datatype strip = Left | Right

text \<open>
  \<open>FastLED.addLeds\<close> in \<open>setup\<close>: which buffer is registered on which pin. Version 0.10
  registers both buffers always (the right one on the left pin when mirrored); the older
  versions register the right buffer only when not mirrored. The buffers themselves never
  depend on \<open>mirror_LEDs\<close>.
\<close>

definition controllers :: "config \<Rightarrow> (nat \<times> strip) list" where
  "controllers cfg =
     (case ver cfg of
        V0_10 \<Rightarrow> [(LED_PIN_L, Left), (if mirror_LEDs cfg then LED_PIN_L else LED_PIN_R, Right)]
      | _ \<Rightarrow> (LED_PIN_L, Left) # (if \<not> mirror_LEDs cfg then [(LED_PIN_R, Right)] else []))"

section \<open>The idle timer\<close>

text \<open>
  Modelled from the spec: the class \<open>MillisTimer\<close> (its \<open>start\<close>, \<open>reset\<close>, \<open>isRunning\<close>
  and \<open>run\<close>), which the sketch includes from a library and which is not among the sources.
  The spec's IdleTimer has the states Idle, Running and Expired-handled; \<open>start\<close> begins the
  countdown if it is not already running, \<open>reset\<close> cancels it and returns to Idle, and a
  tick at which the elapsed time has reached the duration fires the callback once and leaves
  the timer dormant. Times are milliseconds since power on.
\<close>

datatype timer_state = Idle | Running | Expired_handled

record MillisTimer =
  m_state :: timer_state
  m_interval :: nat
  m_started :: nat

definition timer_start :: "nat \<Rightarrow> MillisTimer \<Rightarrow> MillisTimer" where
  "timer_start now t =
     (if m_state t = Running then t else t\<lparr>m_state := Running, m_started := now\<rparr>)"

definition timer_reset :: "MillisTimer \<Rightarrow> MillisTimer" where
  "timer_reset t = t\<lparr>m_state := Idle\<rparr>"

definition timer_isRunning :: "MillisTimer \<Rightarrow> bool" where
  "timer_isRunning t = (m_state t = Running)"

text \<open>The tick: whether the callback is due, and the timer after the tick.\<close>

definition timer_tick :: "nat \<Rightarrow> MillisTimer \<Rightarrow> bool \<times> MillisTimer" where
  "timer_tick now t =
     (if m_state t = Running \<and> m_started t + m_interval t \<le> now
      then (True, t\<lparr>m_state := Expired_handled\<rparr>)
      else (False, t))"

section \<open>The state of the sketch\<close>

text \<open>
  The globals of the sketch. \<open>int\<close> values are modelled as mathematical integers: every
  value the sketch computes from a sensor reading between 0 and \<open>MAX_DISTANCE = 400\<close> stays
  far inside the 16-bit range of the target boards. The EEPROM cell \<open>stopdistance_ee\<close> is a
  \<open>uint16_t\<close>; storing an \<open>int\<close> into it and reading it back into an \<open>int\<close> are the
  conversions of a 16-bit two's complement machine. The one computation that can leave the
  16-bit range is \<open>startdistance - stopdistance\<close> in \<open>setup\<close> of version 0.6, for a cell
  that reads as less than \<open>startdistance - 32767\<close> (0x8000 to 0x818B): no version writes
  such a value, the board wraps there, and the statement about the increment derived from
  a loaded value carries the range as a hypothesis.
\<close>

record state =
  leds_L :: "CRGB list"
  leds_R :: "CRGB list"
  distance :: int
  previous_distance :: int
  increment :: int
  stopdistance :: int
  stopdistance_ee :: "16 word"
  timer :: MillisTimer
  LED_sleep :: bool

text \<open>C's integer division truncates towards zero.\<close>

definition c_div :: "int \<Rightarrow> int \<Rightarrow> int" where
  "c_div a b = (if (a < 0) = (b < 0) then \<bar>a\<bar> div \<bar>b\<bar> else - (\<bar>a\<bar> div \<bar>b\<bar>))"

text \<open>
  The loop \<open>for (i = 0; i < NUM_LEDS; i++) leds_L[i] = leds_R[i] = f(i);\<close> that all the
  display code is made of, started at index \<open>i\<close>.
\<close>

function fill_leds :: "nat \<Rightarrow> (nat \<Rightarrow> CRGB) \<Rightarrow> nat \<Rightarrow> state \<Rightarrow> state" where
  "fill_leds n f i s =
     (if i < n
      then fill_leds n f (Suc i) (s\<lparr>leds_L := (leds_L s)[i := f i], leds_R := (leds_R s)[i := f i]\<rparr>)
      else s)"
  by pat_completeness auto
termination
  by (relation "measure (\<lambda>(n, f, i, s). n - i)") auto

declare fill_leds.simps [simp del]

section \<open>Sleep entry, power on and setup\<close>

text \<open>\<open>sleepmode_start\<close>, the callback registered with the timer.\<close>

definition sleepmode_start :: "config \<Rightarrow> state \<Rightarrow> state" where
  "sleepmode_start cfg s =
     (let s1 = fill_leds (NUM_LEDS cfg) (\<lambda>i. Black) 0 s
      in s1\<lparr>timer := timer_reset (timer s1), LED_sleep := True\<rparr>)"

text \<open>
  The globals at power on, before \<open>setup\<close> runs: the buffers are zero-initialised (black),
  the integers are 0, the timer is constructed with \<open>LED_TIMEOUT\<close>, and the EEPROM cell holds
  whatever it held when power was lost.
\<close>

definition power_on :: "config \<Rightarrow> 16 word \<Rightarrow> state" where
  "power_on cfg ee =
     \<lparr>leds_L = replicate (NUM_LEDS cfg) Black, leds_R = replicate (NUM_LEDS cfg) Black,
      distance = 0, previous_distance = 0, increment = 0,
      stopdistance = stopdistance_static cfg, stopdistance_ee = ee,
      timer = \<lparr>m_state = Idle, m_interval = LED_TIMEOUT cfg, m_started = 0\<rparr>,
      LED_sleep = False\<rparr>"

definition eeprom_read_word :: "state \<Rightarrow> int" where
  "eeprom_read_word s = sint (stopdistance_ee s)"

definition eeprom_write_word :: "int \<Rightarrow> state \<Rightarrow> state" where
  "eeprom_write_word v s = s\<lparr>stopdistance_ee := word_of_int v\<rparr>"

text \<open>The boot animation of version 0.10: the colour of LED \<open>i\<close> while the version is shown.\<close>

definition temp_color :: "nat \<Rightarrow> CRGB" where
  "temp_color i =
     (if i < MAJOR_VER then White
      else if i > MAJOR_VER \<and> i < MAJOR_VER + 1 + MINOR_VER then Red
      else Black)"

text \<open>
  \<open>setup\<close>. Its calls \<open>timer.expiredHandler(sleepmode_start)\<close> and \<open>timer.setRepeats(0)\<close>
  have no counterpart in the state: the timer of the spec is single-shot, and the callback
  is the one that \<open>timer_run\<close> below calls.
\<close>

definition setup_sketch :: "config \<Rightarrow> state \<Rightarrow> state" where
  "setup_sketch cfg s0 =
     (let s1 = s0\<lparr>LED_sleep := False\<rparr>;
          s2 = (if stopdistance s1 = 0 then s1\<lparr>stopdistance := eeprom_read_word s1\<rparr> else s1);
          s3 = s2\<lparr>increment := c_div (startdistance cfg - stopdistance s2) (int (NUM_LEDS cfg))\<rparr>;
          s4 = (case ver cfg of
                  V0_10 \<Rightarrow> fill_leds (NUM_LEDS cfg) (\<lambda>i. Black) 0
                             (fill_leds (NUM_LEDS cfg) temp_color 0 s3)
                | _ \<Rightarrow> s3)
      in s4\<lparr>timer := (timer s4)\<lparr>m_interval := LED_TIMEOUT cfg\<rparr>\<rparr>)"

section \<open>One pass of the main loop\<close>

text \<open>
  What one pass of \<open>loop\<close> reads from outside: the millisecond clock when \<open>timer.run()\<close>
  executes and when \<open>timer.start()\<close> would execute, the distance the sensor code yields
  (\<open>sonar.convert_cm\<close> of the median ping in versions 0.8 and 0.10, the median pulse
  duration times 0.034 / 2 in version 0.6), and whether the button pin reads LOW.
\<close>

record inputs =
  millis_run :: nat
  millis_start :: nat
  measured :: int
  button_low :: bool

text \<open>\<open>timer.run()\<close> with the registered callback.\<close>

definition timer_run :: "config \<Rightarrow> nat \<Rightarrow> state \<Rightarrow> state" where
  "timer_run cfg now s =
     (case timer_tick now (timer s) of
        (True, t) \<Rightarrow> sleepmode_start cfg (s\<lparr>timer := t\<rparr>)
      | (False, t) \<Rightarrow> s\<lparr>timer := t\<rparr>)"

text \<open>The tolerance check on the new sample.\<close>

definition check_movement :: "config \<Rightarrow> nat \<Rightarrow> state \<Rightarrow> state" where
  "check_movement cfg now s =
     (if \<bar>distance s - previous_distance s\<bar> < DISTANCE_TOLERANCE cfg
      then (if \<not> timer_isRunning (timer s) \<and> \<not> LED_sleep s
            then s\<lparr>timer := timer_start now (timer s)\<rparr> else s)
      else s\<lparr>previous_distance := distance s, timer := timer_reset (timer s), LED_sleep := False\<rparr>)"

text \<open>The button branch.\<close>

definition check_button :: "config \<Rightarrow> bool \<Rightarrow> state \<Rightarrow> state" where
  "check_button cfg low s =
     (if low
      then (let s1 = s\<lparr>stopdistance := distance s\<rparr>;
                s2 = eeprom_write_word (stopdistance s1) s1
            in s2\<lparr>increment := c_div (startdistance cfg - stopdistance s2) (int (NUM_LEDS cfg))\<rparr>)
      else s)"

text \<open>
  The amber test of the graduated zone. Versions 0.6 and 0.8 compare with \<open><\<close> against
  \<open>AMBER_LEDS + 1\<close> increments, version 0.10 with \<open>\<le>\<close> against \<open>AMBER_LEDS\<close> increments.
\<close>

definition amber :: "config \<Rightarrow> state \<Rightarrow> bool" where
  "amber cfg s =
     (case ver cfg of
        V0_10 \<Rightarrow> distance s \<le> stopdistance s + AMBER_LEDS cfg * increment s
      | _ \<Rightarrow> distance s < stopdistance s + (AMBER_LEDS cfg + 1) * increment s)"

text \<open>The colour of LED \<open>i\<close> in the graduated zone.\<close>

definition zone_color :: "config \<Rightarrow> state \<Rightarrow> nat \<Rightarrow> CRGB" where
  "zone_color cfg s i =
     (if distance s > stopdistance s + increment s * int i
      then (if amber cfg s then Orange else Green)
      else Black)"

text \<open>
  The colour at or below the stop distance. Version 0.6 shows red; versions 0.8 and 0.10
  show \<open>distance ? CRGB::Red : CRGB::Black\<close>.
\<close>

definition stop_color :: "config \<Rightarrow> state \<Rightarrow> CRGB" where
  "stop_color cfg s =
     (case ver cfg of
        V0_6 \<Rightarrow> Red
      | _ \<Rightarrow> (if distance s \<noteq> 0 then Red else Black))"

text \<open>
  The display computation: the body of \<open>if (!LED_sleep)\<close>. \<open>FastLED.show()\<close> and the
  delays of the loop change none of the globals and are left out.
\<close>

definition display :: "config \<Rightarrow> state \<Rightarrow> state" where
  "display cfg s =
     (if distance s > startdistance cfg
      then fill_leds (NUM_LEDS cfg) (\<lambda>i. Black) 0 s
      else if distance s \<le> stopdistance s
      then fill_leds (NUM_LEDS cfg) (\<lambda>i. stop_color cfg s) 0 s
      else fill_leds (NUM_LEDS cfg) (zone_color cfg s) 0 s)"

definition loop :: "config \<Rightarrow> inputs \<Rightarrow> state \<Rightarrow> state" where
  "loop cfg inp s0 =
     (let s1 = timer_run cfg (millis_run inp) s0;
          s2 = s1\<lparr>distance := measured inp\<rparr>;
          s3 = check_movement cfg (millis_start inp) s2;
          s4 = check_button cfg (button_low inp) s3
      in if \<not> LED_sleep s4 then display cfg s4 else s4)"

section \<open>Invariants and measures used in the statements\<close>

text \<open>
  The buffers are declared \<open>CRGB leds_L[NUM_LEDS], leds_R[NUM_LEDS]\<close>: in every state of the
  sketch both hold exactly \<open>NUM_LEDS\<close> colours.
\<close>

definition buffers_ok :: "config \<Rightarrow> state \<Rightarrow> bool" where
  "buffers_ok cfg s = (length (leds_L s) = NUM_LEDS cfg \<and> length (leds_R s) = NUM_LEDS cfg)"

text \<open>The derived layout: \<open>increment\<close> is the one computed from the current \<open>stopdistance\<close>.\<close>

definition layout_ok :: "config \<Rightarrow> state \<Rightarrow> bool" where
  "layout_ok cfg s =
     (increment s = c_div (startdistance cfg - stopdistance s) (int (NUM_LEDS cfg)))"

text \<open>The number of LEDs of a buffer that are lit, that is, not black.\<close>

definition lit_count :: "CRGB list \<Rightarrow> nat" where
  "lit_count xs = length (filter (\<lambda>c. c \<noteq> Black) xs)"

text \<open>The calibration invariant of the data model: \<open>0 < stopDistance < startDistance\<close>.\<close>

definition calibration_ok :: "config \<Rightarrow> state \<Rightarrow> bool" where
  "calibration_ok cfg s = (0 < stopdistance s \<and> stopdistance s < startdistance cfg)"

text \<open>
  The state of a pass at the test \<open>if (!LED_sleep)\<close>: after the timer, the sample, the
  tolerance check and the button branch, before the display computation.
\<close>

definition before_display :: "config \<Rightarrow> inputs \<Rightarrow> state \<Rightarrow> state" where
  "before_display cfg inp s0 =
     check_button cfg (button_low inp)
       (check_movement cfg (millis_start inp)
         ((timer_run cfg (millis_run inp) s0)\<lparr>distance := measured inp\<rparr>))"

text \<open>
  Successive calls of \<open>timer.run()\<close> at the given clock readings, with nothing in between
  that starts or resets the timer: how often the callback ran, and the state afterwards.
\<close>

fun ticks :: "config \<Rightarrow> nat list \<Rightarrow> state \<Rightarrow> nat \<times> state" where
  "ticks cfg [] s = (0, s)"
| "ticks cfg (t # ts) s =
     (let (k, s') = ticks cfg ts (timer_run cfg t s)
      in ((if fst (timer_tick t (timer s)) then 1 else 0) + k, s'))"

text \<open>
  The board calls \<open>setup\<close> once after power on and then \<open>loop\<close> again and again: the
  states the sketch reaches, by the EEPROM content at power on and the inputs of the passes.
\<close>

fun run :: "config \<Rightarrow> inputs list \<Rightarrow> state \<Rightarrow> state" where
  "run cfg [] s = s"
| "run cfg (inp # inps) s = run cfg inps (loop cfg inp s)"

definition reached :: "config \<Rightarrow> 16 word \<Rightarrow> inputs list \<Rightarrow> state" where
  "reached cfg ee inps = run cfg inps (setup_sketch cfg (power_on cfg ee))"

text \<open>The range of an \<open>int\<close> on the 16-bit boards the sketch is written for.\<close>

definition in_int16 :: "int \<Rightarrow> bool" where
  "in_int16 x = (- 32768 \<le> x \<and> x \<le> 32767)"

text \<open>A state at the display computation: the state after \<open>setup\<close> with a given sample.\<close>

definition sampled :: "config \<Rightarrow> 16 word \<Rightarrow> int \<Rightarrow> state" where
  "sampled cfg ee d = (setup_sketch cfg (power_on cfg ee))\<lparr>distance := d\<rparr>"

section \<open>The fill loop and the three display zones\<close>

lemma fill_leds_from:
  "length (leds_L s) = n \<Longrightarrow> length (leds_R s) = n \<Longrightarrow> i \<le> n \<Longrightarrow>
   fill_leds n f i s = s\<lparr>leds_L := take i (leds_L s) @ map f [i..<n],
                         leds_R := take i (leds_R s) @ map f [i..<n]\<rparr>"
proof (induction n f i s rule: fill_leds.induct)
  case (1 n f i s)
  show ?case
  proof (cases "i < n")
    case True
    let ?s' = "s\<lparr>leds_L := (leds_L s)[i := f i], leds_R := (leds_R s)[i := f i]\<rparr>"
    have "fill_leds n f i s = fill_leds n f (Suc i) ?s'"
      using True by (subst fill_leds.simps) simp
    also have "\<dots> = ?s'\<lparr>leds_L := take (Suc i) (leds_L ?s') @ map f [Suc i..<n],
                         leds_R := take (Suc i) (leds_R ?s') @ map f [Suc i..<n]\<rparr>"
      using "1.IH"[OF True] "1.prems" True by simp
    also have "\<dots> = s\<lparr>leds_L := take i (leds_L s) @ map f [i..<n],
                         leds_R := take i (leds_R s) @ map f [i..<n]\<rparr>"
      using "1.prems" True by (simp add: take_Suc_conv_app_nth upt_conv_Cons)
    finally show ?thesis .
  next
    case False
    with "1.prems" have "i = n" by simp
    then show ?thesis using "1.prems" by (subst fill_leds.simps) simp
  qed
qed

lemma fill_leds_all:
  "length (leds_L s) = n \<Longrightarrow> length (leds_R s) = n \<Longrightarrow>
   fill_leds n f 0 s = s\<lparr>leds_L := map f [0..<n], leds_R := map f [0..<n]\<rparr>"
  using fill_leds_from[of s n 0 f] by simp

lemma display_far:
  "buffers_ok cfg s \<Longrightarrow> distance s > startdistance cfg \<Longrightarrow>
   display cfg s = s\<lparr>leds_L := replicate (NUM_LEDS cfg) Black,
                       leds_R := replicate (NUM_LEDS cfg) Black\<rparr>"
  by (simp add: display_def fill_leds_all buffers_ok_def map_replicate_const)

lemma display_stop:
  "buffers_ok cfg s \<Longrightarrow> distance s \<le> startdistance cfg \<Longrightarrow> distance s \<le> stopdistance s \<Longrightarrow>
   display cfg s = s\<lparr>leds_L := replicate (NUM_LEDS cfg) (stop_color cfg s),
                       leds_R := replicate (NUM_LEDS cfg) (stop_color cfg s)\<rparr>"
  by (simp add: display_def fill_leds_all buffers_ok_def map_replicate_const)

lemma display_zone:
  "buffers_ok cfg s \<Longrightarrow> distance s \<le> startdistance cfg \<Longrightarrow> stopdistance s < distance s \<Longrightarrow>
   display cfg s = s\<lparr>leds_L := map (zone_color cfg s) [0..<NUM_LEDS cfg],
                       leds_R := map (zone_color cfg s) [0..<NUM_LEDS cfg]\<rparr>"
  by (simp add: display_def fill_leds_all buffers_ok_def)

lemma setup_power_on:
  "setup_sketch cfg (power_on cfg ee) =
     \<lparr>leds_L = replicate (NUM_LEDS cfg) Black, leds_R = replicate (NUM_LEDS cfg) Black,
      distance = 0, previous_distance = 0,
      increment = c_div (startdistance cfg -
                    (if stopdistance_static cfg = 0 then sint ee else stopdistance_static cfg))
                    (int (NUM_LEDS cfg)),
      stopdistance = (if stopdistance_static cfg = 0 then sint ee else stopdistance_static cfg),
      stopdistance_ee = ee,
      timer = \<lparr>m_state = Idle, m_interval = LED_TIMEOUT cfg, m_started = 0\<rparr>,
      LED_sleep = False\<rparr>"
  by (cases "ver cfg")
     (simp_all add: setup_sketch_def power_on_def eeprom_read_word_def fill_leds_all Let_def
        map_replicate_const)

section \<open>The worked scenario of the current version\<close>

lemma scenario_thresholds: "(100::int) > 10 + 13 * int i \<longleftrightarrow> i < 7"
  by linarith

lemma scenario_leds:
  "map (\<lambda>i. if (100::int) > 10 + 13 * int i then Green else Black) [0..<30] =
   replicate 7 Green @ replicate 23 Black"
  by (simp add: list_eq_iff_nth_eq nth_append scenario_thresholds)

lemma scenario_loop:
  "loop sketch_v0_10 \<lparr>millis_run = t1, millis_start = t2, measured = 100, button_low = False\<rparr>
     (setup_sketch sketch_v0_10 (power_on sketch_v0_10 ee)) =
   \<lparr>leds_L = replicate 7 Green @ replicate 23 Black,
    leds_R = replicate 7 Green @ replicate 23 Black,
    distance = 100, previous_distance = 100, increment = 13,
    stopdistance = 10, stopdistance_ee = ee,
    timer = \<lparr>m_state = Idle, m_interval = 60000, m_started = 0\<rparr>,
    LED_sleep = False\<rparr>"
proof -
  let ?s = "\<lparr>leds_L = replicate 30 Black, leds_R = replicate 30 Black,
      distance = 100, previous_distance = 100, increment = 13,
      stopdistance = 10, stopdistance_ee = ee,
      timer = \<lparr>m_state = Idle, m_interval = 60000, m_started = 0\<rparr>,
      LED_sleep = False\<rparr>"
  have "setup_sketch sketch_v0_10 (power_on sketch_v0_10 ee) =
        ?s\<lparr>distance := 0, previous_distance := 0\<rparr>"
    unfolding setup_power_on by (simp add: sketch_v0_10_def c_div_def)
  then have "loop sketch_v0_10
       \<lparr>millis_run = t1, millis_start = t2, measured = 100, button_low = False\<rparr>
       (setup_sketch sketch_v0_10 (power_on sketch_v0_10 ee)) = display sketch_v0_10 ?s"
    by (simp add: loop_def timer_run_def timer_tick_def check_movement_def
        check_button_def Let_def timer_reset_def sketch_v0_10_def)
  moreover have "display sketch_v0_10 ?s =
       ?s\<lparr>leds_L := map (zone_color sketch_v0_10 ?s) [0..<30],
            leds_R := map (zone_color sketch_v0_10 ?s) [0..<30]\<rparr>"
    by (simp add: display_zone buffers_ok_def sketch_v0_10_def)
  moreover have "zone_color sketch_v0_10 ?s =
       (\<lambda>i. if (100::int) > 10 + 13 * int i then Green else Black)"
    by (simp add: zone_color_def amber_def sketch_v0_10_def fun_eq_iff)
  ultimately show ?thesis using scenario_leds by simp
qed

text \<open>
  C4. The current version has \<open>startdistance = 400\<close>, \<open>stopdistance = 10\<close>,
  \<open>NUM_LEDS = 30\<close> and \<open>AMBER_LEDS = 5\<close>. After \<open>setup\<close> the increment is 13, and a pass of
  the loop that measures 100 cm leaves LEDs 0 to 6 green and LEDs 7 to 29 black on both
  strips: seven LEDs are lit, all green, none amber.
\<close>

theorem C4_scenario_100cm:
  "increment (setup_sketch sketch_v0_10 (power_on sketch_v0_10 ee)) = 13 \<and>
   leds_L (loop sketch_v0_10
        \<lparr>millis_run = t1, millis_start = t2, measured = 100, button_low = False\<rparr>
        (setup_sketch sketch_v0_10 (power_on sketch_v0_10 ee)))
     = replicate 7 Green @ replicate 23 Black \<and>
   leds_R (loop sketch_v0_10
        \<lparr>millis_run = t1, millis_start = t2, measured = 100, button_low = False\<rparr>
        (setup_sketch sketch_v0_10 (power_on sketch_v0_10 ee)))
     = replicate 7 Green @ replicate 23 Black \<and>
   lit_count (leds_L (loop sketch_v0_10
        \<lparr>millis_run = t1, millis_start = t2, measured = 100, button_low = False\<rparr>
        (setup_sketch sketch_v0_10 (power_on sketch_v0_10 ee)))) = 7"
proof -
  have "increment (setup_sketch sketch_v0_10 (power_on sketch_v0_10 ee)) = 13"
    unfolding setup_power_on by (simp add: sketch_v0_10_def c_div_def)
  then show ?thesis
    by (simp add: scenario_loop lit_count_def)
qed

section \<open>Frame properties and sample states\<close>

lemma fill_leds_frame:
  "fill_leds n f i s = s\<lparr>leds_L := leds_L (fill_leds n f i s), leds_R := leds_R (fill_leds n f i s)\<rparr>"
proof (induction n f i s rule: fill_leds.induct)
  case (1 n f i s)
  show ?case
  proof (cases "i < n")
    case True
    let ?s' = "s\<lparr>leds_L := (leds_L s)[i := f i], leds_R := (leds_R s)[i := f i]\<rparr>"
    have eq: "fill_leds n f i s = fill_leds n f (Suc i) ?s'"
      using True by (subst fill_leds.simps) simp
    have "fill_leds n f (Suc i) ?s' =
          ?s'\<lparr>leds_L := leds_L (fill_leds n f (Suc i) ?s'), leds_R := leds_R (fill_leds n f (Suc i) ?s')\<rparr>"
      using "1.IH"[OF True] .
    then show ?thesis unfolding eq by simp
  next
    case False
    then show ?thesis by (subst (1 2 3) fill_leds.simps) simp
  qed
qed

lemma fill_leds_fields:
  "distance (fill_leds n f i s) = distance s"
  "previous_distance (fill_leds n f i s) = previous_distance s"
  "increment (fill_leds n f i s) = increment s"
  "stopdistance (fill_leds n f i s) = stopdistance s"
  "stopdistance_ee (fill_leds n f i s) = stopdistance_ee s"
  "timer (fill_leds n f i s) = timer s"
  "LED_sleep (fill_leds n f i s) = LED_sleep s"
  by (subst fill_leds_frame, simp)+

lemma display_fields:
  "distance (display cfg s) = distance s"
  "previous_distance (display cfg s) = previous_distance s"
  "increment (display cfg s) = increment s"
  "stopdistance (display cfg s) = stopdistance s"
  "stopdistance_ee (display cfg s) = stopdistance_ee s"
  "timer (display cfg s) = timer s"
  "LED_sleep (display cfg s) = LED_sleep s"
  by (simp_all add: display_def fill_leds_fields)

lemma c_div_pos: "0 \<le> a \<Longrightarrow> 0 < b \<Longrightarrow> c_div a b = a div b"
  by (simp add: c_div_def)

lemma zone_lit: "(zone_color cfg s i \<noteq> Black) = (distance s > stopdistance s + increment s * int i)"
  by (simp add: zone_color_def)

lemma display_zone_nth:
  "buffers_ok cfg s \<Longrightarrow> distance s \<le> startdistance cfg \<Longrightarrow> stopdistance s < distance s \<Longrightarrow>
   i < NUM_LEDS cfg \<Longrightarrow>
   leds_L (display cfg s) ! i = zone_color cfg s i \<and> leds_R (display cfg s) ! i = zone_color cfg s i"
  by (simp add: display_zone)

lemma sampled_eq:
  "sampled cfg ee d =
     \<lparr>leds_L = replicate (NUM_LEDS cfg) Black, leds_R = replicate (NUM_LEDS cfg) Black,
      distance = d, previous_distance = 0,
      increment = c_div (startdistance cfg -
                    (if stopdistance_static cfg = 0 then sint ee else stopdistance_static cfg))
                    (int (NUM_LEDS cfg)),
      stopdistance = (if stopdistance_static cfg = 0 then sint ee else stopdistance_static cfg),
      stopdistance_ee = ee,
      timer = \<lparr>m_state = Idle, m_interval = LED_TIMEOUT cfg, m_started = 0\<rparr>,
      LED_sleep = False\<rparr>"
  by (simp add: sampled_def setup_power_on)

lemma sampled_v0_10:
  "buffers_ok sketch_v0_10 (sampled sketch_v0_10 ee d)"
  "distance (sampled sketch_v0_10 ee d) = d"
  "stopdistance (sampled sketch_v0_10 ee d) = 10"
  "increment (sampled sketch_v0_10 ee d) = 13"
  by (simp_all add: sampled_eq buffers_ok_def sketch_v0_10_def c_div_def)

lemma sampled_v0_8:
  "buffers_ok sketch_v0_8 (sampled sketch_v0_8 ee d)"
  "distance (sampled sketch_v0_8 ee d) = d"
  "stopdistance (sampled sketch_v0_8 ee d) = 10"
  "increment (sampled sketch_v0_8 ee d) = 1"
  "layout_ok sketch_v0_8 (sampled sketch_v0_8 ee d)"
  by (simp_all add: sampled_eq buffers_ok_def layout_ok_def sketch_v0_8_def c_div_def)

lemma sampled_v0_6:
  "buffers_ok sketch_v0_6 (sampled sketch_v0_6 ee d)"
  "distance (sampled sketch_v0_6 ee d) = d"
  "stopdistance (sampled sketch_v0_6 ee d) = sint ee"
  "increment (sampled sketch_v0_6 ee d) = c_div (395 - sint ee) 15"
  by (simp_all add: sampled_eq buffers_ok_def sketch_v0_6_def)

section \<open>What one pass of the loop does to the globals\<close>

lemma sleepmode_start_fields:
  "distance (sleepmode_start cfg s) = distance s"
  "previous_distance (sleepmode_start cfg s) = previous_distance s"
  "increment (sleepmode_start cfg s) = increment s"
  "stopdistance (sleepmode_start cfg s) = stopdistance s"
  "stopdistance_ee (sleepmode_start cfg s) = stopdistance_ee s"
  "timer (sleepmode_start cfg s) = timer_reset (timer s)"
  "LED_sleep (sleepmode_start cfg s) = True"
  by (simp_all add: sleepmode_start_def Let_def fill_leds_fields)

lemma sleepmode_start_leds:
  "buffers_ok cfg s \<Longrightarrow>
   leds_L (sleepmode_start cfg s) = replicate (NUM_LEDS cfg) Black \<and>
   leds_R (sleepmode_start cfg s) = replicate (NUM_LEDS cfg) Black"
  by (simp add: sleepmode_start_def Let_def fill_leds_all buffers_ok_def map_replicate_const)

lemma timer_run_fields:
  "distance (timer_run cfg now s) = distance s"
  "previous_distance (timer_run cfg now s) = previous_distance s"
  "increment (timer_run cfg now s) = increment s"
  "stopdistance (timer_run cfg now s) = stopdistance s"
  "stopdistance_ee (timer_run cfg now s) = stopdistance_ee s"
  by (simp_all add: timer_run_def timer_tick_def sleepmode_start_fields)

lemma timer_run_leds:
  "buffers_ok cfg s \<Longrightarrow>
   leds_L (timer_run cfg now s) = (if fst (timer_tick now (timer s)) then replicate (NUM_LEDS cfg) Black else leds_L s) \<and>
   leds_R (timer_run cfg now s) = (if fst (timer_tick now (timer s)) then replicate (NUM_LEDS cfg) Black else leds_R s)"
  by (simp add: timer_run_def timer_tick_def sleepmode_start_leds buffers_ok_def)

lemma check_movement_fields:
  "leds_L (check_movement cfg now s) = leds_L s"
  "leds_R (check_movement cfg now s) = leds_R s"
  "distance (check_movement cfg now s) = distance s"
  "increment (check_movement cfg now s) = increment s"
  "stopdistance (check_movement cfg now s) = stopdistance s"
  "stopdistance_ee (check_movement cfg now s) = stopdistance_ee s"
  by (simp_all add: check_movement_def)

lemma check_button_fields:
  "leds_L (check_button cfg low s) = leds_L s"
  "leds_R (check_button cfg low s) = leds_R s"
  "distance (check_button cfg low s) = distance s"
  "previous_distance (check_button cfg low s) = previous_distance s"
  "timer (check_button cfg low s) = timer s"
  "LED_sleep (check_button cfg low s) = LED_sleep s"
  by (simp_all add: check_button_def eeprom_write_word_def Let_def)

lemma check_button_pressed:
  "stopdistance (check_button cfg True s) = distance s"
  "stopdistance_ee (check_button cfg True s) = word_of_int (distance s)"
  "increment (check_button cfg True s) = c_div (startdistance cfg - distance s) (int (NUM_LEDS cfg))"
  by (simp_all add: check_button_def eeprom_write_word_def Let_def)

lemma check_button_released: "check_button cfg False s = s"
  by (simp add: check_button_def)

lemma loop_before_display:
  "loop cfg inp s =
     (if \<not> LED_sleep (before_display cfg inp s)
      then display cfg (before_display cfg inp s) else before_display cfg inp s)"
  by (simp add: loop_def before_display_def Let_def)

lemma before_display_calibration:
  "stopdistance (before_display cfg inp s) = (if button_low inp then measured inp else stopdistance s)"
  "stopdistance_ee (before_display cfg inp s) =
     (if button_low inp then word_of_int (measured inp) else stopdistance_ee s)"
  "increment (before_display cfg inp s) =
     (if button_low inp then c_div (startdistance cfg - measured inp) (int (NUM_LEDS cfg))
      else increment s)"
  "distance (before_display cfg inp s) = measured inp"
  by (simp_all add: before_display_def check_button_def eeprom_write_word_def Let_def
        check_movement_fields timer_run_fields)

lemma loop_calibration:
  "stopdistance (loop cfg inp s) = (if button_low inp then measured inp else stopdistance s)"
  "stopdistance_ee (loop cfg inp s) =
     (if button_low inp then word_of_int (measured inp) else stopdistance_ee s)"
  "increment (loop cfg inp s) =
     (if button_low inp then c_div (startdistance cfg - measured inp) (int (NUM_LEDS cfg))
      else increment s)"
  "distance (loop cfg inp s) = measured inp"
  by (simp_all add: loop_before_display display_fields before_display_calibration)

lemma c_div_positive: "0 < b \<Longrightarrow> (0 < c_div a b) = (b \<le> a)"
proof (cases "a < 0")
  case True
  assume b: "0 < b"
  from True b have "0 \<le> (- a) div b" by (simp add: pos_imp_zdiv_nonneg_iff)
  then show ?thesis using True b by (simp add: c_div_def)
next
  case False
  assume b: "0 < b"
  then show ?thesis using False by (simp add: c_div_def pos_imp_zdiv_pos_iff)
qed

section \<open>The amber cutoff\<close>

text \<open>
  Under the constants of version 0.8 the increment is 0 or 1 whenever the graduated zone is
  not empty, and then its test \<open>distance < stopdistance + (AMBER_LEDS + 1) * increment\<close>
  decides as \<open>distance \<le> stopdistance + AMBER_LEDS * increment\<close> does.
\<close>

lemma amber_v0_8:
  assumes "0 \<le> stopdistance s" "stopdistance s < distance s" "distance s \<le> startdistance sketch_v0_8"
    and "layout_ok sketch_v0_8 s"
  shows "amber sketch_v0_8 s = (distance s \<le> stopdistance s + AMBER_LEDS sketch_v0_8 * increment s)"
proof -
  have inc: "increment s = (50 - stopdistance s) div 30"
    using assms by (simp add: layout_ok_def sketch_v0_8_def c_div_pos)
  have "increment s = 0 \<or> increment s = 1"
    using assms(1-3) unfolding inc sketch_v0_8_def by simp linarith
  then show ?thesis using assms(2)
    by (auto simp: amber_def sketch_v0_8_def)
qed

text \<open>
  C1. In the graduated zone (\<open>stopdistance < distance \<le> startdistance\<close>) every lit LED is
  orange if \<open>distance \<le> stopdistance + AMBER_LEDS * increment\<close> and green otherwise, on both
  strips; the comparison does not depend on the LED index. This holds for version 0.10 with
  any constants and any increment, and for version 0.8 as shipped, with a stop distance the
  sensor can have produced (not negative) and the increment derived from it.
\<close>

theorem C1_amber_cutoff:
  assumes "buffers_ok cfg s" "stopdistance s < distance s" "distance s \<le> startdistance cfg"
      and "ver cfg = V0_10 \<or> (cfg = sketch_v0_8 \<and> 0 \<le> stopdistance s \<and> layout_ok cfg s)"
      and "i < NUM_LEDS cfg" "leds_L (display cfg s) ! i \<noteq> Black"
  shows "leds_L (display cfg s) ! i =
           (if distance s \<le> stopdistance s + AMBER_LEDS cfg * increment s then Orange else Green) \<and>
         leds_R (display cfg s) ! i = leds_L (display cfg s) ! i"
proof -
  have am: "amber cfg s = (distance s \<le> stopdistance s + AMBER_LEDS cfg * increment s)"
    using assms(4)
  proof
    assume "ver cfg = V0_10" then show ?thesis by (simp add: amber_def)
  next
    assume "cfg = sketch_v0_8 \<and> 0 \<le> stopdistance s \<and> layout_ok cfg s"
    then have c: "cfg = sketch_v0_8" and p: "0 \<le> stopdistance s" and l: "layout_ok sketch_v0_8 s"
      by blast+
    show ?thesis using assms(2,3) p l unfolding c by (intro amber_v0_8)
  qed
  have L: "leds_L (display cfg s) ! i = zone_color cfg s i"
    and R: "leds_R (display cfg s) ! i = zone_color cfg s i"
    using assms(1,2,3,5) by (simp_all add: display_zone)
  from assms(6) L have "zone_color cfg s i \<noteq> Black" by simp
  then have "zone_color cfg s i = (if amber cfg s then Orange else Green)"
    by (simp add: zone_color_def split: if_splits)
  then show ?thesis using L R am by simp
qed

theorem C1_amber_cutoff_witness:
  "leds_L (display sketch_v0_10 (sampled sketch_v0_10 0 60)) ! 2 \<noteq> Black \<and>
   leds_L (display sketch_v0_10 (sampled sketch_v0_10 0 60)) ! 2 = Orange \<and>
   leds_L (display sketch_v0_8 (sampled sketch_v0_8 0 20)) ! 2 \<noteq> Black \<and>
   leds_L (display sketch_v0_8 (sampled sketch_v0_8 0 20)) ! 2 = Green"
proof -
  have a: "leds_L (display sketch_v0_10 (sampled sketch_v0_10 0 60)) ! 2 \<noteq> Black"
    using display_zone_nth[of sketch_v0_10 "sampled sketch_v0_10 0 60" 2]
    by (simp add: sampled_v0_10 zone_color_def) (simp add: sketch_v0_10_def)
  have b: "leds_L (display sketch_v0_8 (sampled sketch_v0_8 0 20)) ! 2 \<noteq> Black"
    using display_zone_nth[of sketch_v0_8 "sampled sketch_v0_8 0 20" 2]
    by (simp add: sampled_v0_8 zone_color_def) (simp add: sketch_v0_8_def)
  have "leds_L (display sketch_v0_10 (sampled sketch_v0_10 0 60)) ! 2 = Orange"
    using C1_amber_cutoff[of sketch_v0_10 "sampled sketch_v0_10 0 60" 2] a
    by (simp add: sampled_v0_10) (simp add: sketch_v0_10_def)
  moreover have "leds_L (display sketch_v0_8 (sampled sketch_v0_8 0 20)) ! 2 = Green"
    using C1_amber_cutoff[of sketch_v0_8 "sampled sketch_v0_8 0 20" 2] b
    by (simp add: sampled_v0_8) (simp add: sketch_v0_8_def)
  ultimately show ?thesis using a b by simp
qed

text \<open>
  Version 0.6 has the older test too, with constants under which it is not the same cutoff:
  with a stored stop distance of 20 cm its increment is 25, and at 130 cm the lit LEDs are
  orange although 130 is beyond \<open>20 + 4 * 25\<close>.
\<close>

lemma amber_v0_6_differs:
  "leds_L (display sketch_v0_6 (sampled sketch_v0_6 20 130)) ! 0 = Orange \<and>
   \<not> distance (sampled sketch_v0_6 20 130)
       \<le> stopdistance (sampled sketch_v0_6 20 130)
         + AMBER_LEDS sketch_v0_6 * increment (sampled sketch_v0_6 20 130)"
proof -
  let ?s = "sampled sketch_v0_6 20 130"
  have v: "distance ?s = 130" "stopdistance ?s = 20" "increment ?s = 25"
    by (simp_all add: sampled_v0_6 c_div_def)
  have k: "ver sketch_v0_6 = V0_6" "AMBER_LEDS sketch_v0_6 = 4" "startdistance sketch_v0_6 = 395"
          "0 < NUM_LEDS sketch_v0_6"
    by (simp_all add: sketch_v0_6_def)
  have "leds_L (display sketch_v0_6 ?s) ! 0 = zone_color sketch_v0_6 ?s 0"
    using display_zone_nth[of sketch_v0_6 ?s 0] sampled_v0_6(1)[of 20 130]
    by (simp add: v k)
  then show ?thesis
    by (simp add: zone_color_def amber_def v k)
qed

section \<open>At or below the stop distance\<close>

text \<open>
  C2, as amended. When \<open>distance \<le> stopdistance\<close> (and \<open>distance \<le> startdistance\<close>, so
  that the first branch is not taken): for \<open>0 < distance\<close> every version sets all
  \<open>NUM_LEDS\<close> LEDs of both strips to red; for \<open>distance = 0\<close> versions 0.8 and 0.10 set them
  all to black, and version 0.6 sets them all to red.
\<close>

theorem C2_stop_zone:
  assumes "buffers_ok cfg s" "distance s \<le> stopdistance s" "distance s \<le> startdistance cfg"
  shows "(0 < distance s \<longrightarrow>
            leds_L (display cfg s) = replicate (NUM_LEDS cfg) Red \<and>
            leds_R (display cfg s) = replicate (NUM_LEDS cfg) Red) \<and>
         (distance s = 0 \<longrightarrow>
            leds_L (display cfg s) = replicate (NUM_LEDS cfg) (if ver cfg = V0_6 then Red else Black) \<and>
            leds_R (display cfg s) = replicate (NUM_LEDS cfg) (if ver cfg = V0_6 then Red else Black))"
  using assms by (cases "ver cfg") (simp_all add: display_stop stop_color_def)

theorem C2_stop_zone_witness:
  "leds_L (display sketch_v0_10 (sampled sketch_v0_10 0 7)) = replicate 30 Red \<and>
   leds_R (display sketch_v0_10 (sampled sketch_v0_10 0 7)) = replicate 30 Red \<and>
   leds_L (display sketch_v0_10 (sampled sketch_v0_10 0 0)) = replicate 30 Black \<and>
   leds_R (display sketch_v0_10 (sampled sketch_v0_10 0 0)) = replicate 30 Black"
  using C2_stop_zone[of sketch_v0_10 "sampled sketch_v0_10 0 7"]
        C2_stop_zone[of sketch_v0_10 "sampled sketch_v0_10 0 0"]
  by (simp add: sampled_v0_10) (simp add: sketch_v0_10_def)

lemma first_pass_v0_6:
  "before_display sketch_v0_6
      \<lparr>millis_run = 0, millis_start = 30, measured = 0, button_low = False\<rparr>
      (setup_sketch sketch_v0_6 (power_on sketch_v0_6 20)) =
   (sampled sketch_v0_6 20 0)
      \<lparr>timer := \<lparr>m_state = Running, m_interval = 60000, m_started = 30\<rparr>\<rparr>"
  by (simp add: before_display_def sampled_def setup_power_on timer_run_def timer_tick_def
      check_movement_def check_button_def timer_isRunning_def timer_start_def sketch_v0_6_def)

text \<open>
  Version 0.6, powered on with a stored stop distance of 20 cm: a first pass that measures 0
  leaves all 15 LEDs red, not black.
\<close>

theorem C2_counterexample_v0_6:
  "leds_L (loop sketch_v0_6
      \<lparr>millis_run = 0, millis_start = 30, measured = 0, button_low = False\<rparr>
      (setup_sketch sketch_v0_6 (power_on sketch_v0_6 20))) = replicate 15 Red \<and>
   leds_L (loop sketch_v0_6
      \<lparr>millis_run = 0, millis_start = 30, measured = 0, button_low = False\<rparr>
      (setup_sketch sketch_v0_6 (power_on sketch_v0_6 20))) \<noteq> replicate 15 Black \<and>
   stopdistance (setup_sketch sketch_v0_6 (power_on sketch_v0_6 20)) = 20"
proof -
  let ?b = "(sampled sketch_v0_6 20 0)
      \<lparr>timer := \<lparr>m_state = Running, m_interval = 60000, m_started = 30\<rparr>\<rparr>"
  have b: "buffers_ok sketch_v0_6 ?b" "distance ?b = 0" "stopdistance ?b = 20" "\<not> LED_sleep ?b"
    using sampled_v0_6[of 20 0] by (simp_all add: buffers_ok_def sampled_eq)
  have k: "startdistance sketch_v0_6 = 395" "NUM_LEDS sketch_v0_6 = 15" "ver sketch_v0_6 = V0_6"
    by (simp_all add: sketch_v0_6_def)
  have "leds_L (display sketch_v0_6 ?b) = replicate 15 Red"
    using display_stop[OF b(1)] b(2,3) by (simp add: k stop_color_def)
  then have "leds_L (loop sketch_v0_6
      \<lparr>millis_run = 0, millis_start = 30, measured = 0, button_low = False\<rparr>
      (setup_sketch sketch_v0_6 (power_on sketch_v0_6 20))) = replicate 15 Red"
    using b(4) by (simp only: loop_before_display first_pass_v0_6 not_False_eq_True if_True simp_thms)
  moreover have "stopdistance (setup_sketch sketch_v0_6 (power_on sketch_v0_6 20)) = 20"
    unfolding setup_power_on by (simp add: sketch_v0_6_def)
  ultimately show ?thesis by simp
qed

section \<open>The lit prefix of the graduated zone\<close>

lemma lit_count_map:
  "lit_count (map f [0..<n]) = length (filter (\<lambda>i. f i \<noteq> Black) [0..<n])"
  by (simp add: lit_count_def filter_map comp_def)

lemma prefix_count:
  assumes "\<And>i j. i \<le> j \<Longrightarrow> j < n \<Longrightarrow> P j \<Longrightarrow> P i"
  shows "\<forall>i<n. P i = (i < length (filter P [0..<n]))"
  using assms
proof (induction n)
  case 0
  then show ?case by simp
next
  case (Suc n)
  have IH: "\<forall>i<n. P i = (i < length (filter P [0..<n]))"
    using Suc.prems by (intro Suc.IH) auto
  have le: "length (filter P [0..<n]) \<le> n"
    using length_filter_le[of P "[0..<n]"] by simp
  show ?case
  proof (cases "P n")
    case True
    then have all: "\<forall>i<n. P i" using Suc.prems[of _ n] by auto
    then have "filter P [0..<n] = [0..<n]" by (simp add: filter_id_conv)
    then show ?thesis using True all by (auto simp: less_Suc_eq)
  next
    case False
    then have f: "filter P [0..<Suc n] = filter P [0..<n]" by simp
    show ?thesis unfolding f
    proof (intro allI impI)
      fix i assume i: "i < Suc n"
      show "P i = (i < length (filter P [0..<n]))"
      proof (cases "i = n")
        case True
        then show ?thesis using \<open>\<not> P n\<close> le by simp
      next
        case False
        then have "i < n" using i by simp
        then show ?thesis using IH by blast
      qed
    qed
  qed
qed

lemma filter_mono_length:
  "(\<And>x. x \<in> set xs \<Longrightarrow> P x \<Longrightarrow> Q x) \<Longrightarrow> length (filter P xs) \<le> length (filter Q xs)"
  by (induction xs) auto

lemma zone_increment_nonneg:
  assumes "layout_ok cfg s" "0 < NUM_LEDS cfg" "stopdistance s < distance s" "distance s \<le> startdistance cfg"
  shows "0 \<le> increment s"
proof -
  have "increment s = (startdistance cfg - stopdistance s) div int (NUM_LEDS cfg)"
    using assms by (simp add: layout_ok_def c_div_pos)
  then show ?thesis using assms by (simp add: pos_imp_zdiv_nonneg_iff)
qed

text \<open>
  C3. In the graduated zone, with the increment derived from the stop distance, the lit LEDs
  are exactly the LEDs with an index below the number of lit LEDs: a contiguous prefix that
  starts at index 0 and is not empty, with no black LED before a lit one. For a second
  sample in the zone that is at least as far, with the same stop distance and increment, the
  prefix is at least as long. Both strips show the same.
\<close>

theorem C3_lit_prefix:
  assumes "buffers_ok cfg s" "layout_ok cfg s" "0 < NUM_LEDS cfg"
      and "stopdistance s < distance s" "distance s \<le> startdistance cfg"
      and "buffers_ok cfg s'" "stopdistance s' = stopdistance s" "increment s' = increment s"
      and "distance s \<le> distance s'" "distance s' \<le> startdistance cfg"
  shows "(\<forall>i<NUM_LEDS cfg. (leds_L (display cfg s) ! i \<noteq> Black) = (i < lit_count (leds_L (display cfg s)))) \<and>
         (\<forall>j<NUM_LEDS cfg. \<forall>i\<le>j. leds_L (display cfg s) ! j \<noteq> Black \<longrightarrow> leds_L (display cfg s) ! i \<noteq> Black) \<and>
         0 < lit_count (leds_L (display cfg s)) \<and>
         lit_count (leds_L (display cfg s)) \<le> lit_count (leds_L (display cfg s')) \<and>
         leds_R (display cfg s) = leds_L (display cfg s)"
proof -
  let ?n = "NUM_LEDS cfg"
  let ?P = "\<lambda>i. zone_color cfg s i \<noteq> Black"
  let ?P' = "\<lambda>i. zone_color cfg s' i \<noteq> Black"
  have inc: "0 \<le> increment s" using assms(2-5) by (rule zone_increment_nonneg)
  have L: "leds_L (display cfg s) = map (zone_color cfg s) [0..<?n]"
    and R: "leds_R (display cfg s) = map (zone_color cfg s) [0..<?n]"
    using assms(1,4,5) by (simp_all add: display_zone)
  have L': "leds_L (display cfg s') = map (zone_color cfg s') [0..<?n]"
    using assms(4,6,7,9,10) by (simp add: display_zone)
  have cnt: "lit_count (leds_L (display cfg s)) = length (filter ?P [0..<?n])"
    unfolding L by (rule lit_count_map)
  have cnt': "lit_count (leds_L (display cfg s')) = length (filter ?P' [0..<?n])"
    unfolding L' by (rule lit_count_map)
  have anti: "\<And>i j. i \<le> j \<Longrightarrow> j < ?n \<Longrightarrow> ?P j \<Longrightarrow> ?P i"
  proof -
    fix i j :: nat assume ij: "i \<le> j" and "j < ?n" and Pj: "?P j"
    have "increment s * int i \<le> increment s * int j"
      using inc ij by (intro mult_left_mono) simp_all
    then show "?P i" using Pj by (simp add: zone_lit)
  qed
  have pre: "\<forall>i<?n. ?P i = (i < length (filter ?P [0..<?n]))"
    using anti by (rule prefix_count)
  have 1: "\<forall>i<?n. (leds_L (display cfg s) ! i \<noteq> Black) = (i < lit_count (leds_L (display cfg s)))"
  proof (intro allI impI)
    fix i assume i: "i < ?n"
    have e: "leds_L (display cfg s) ! i = zone_color cfg s i" using i by (simp add: L)
    from pre i have "?P i = (i < length (filter ?P [0..<?n]))" by blast
    then show "(leds_L (display cfg s) ! i \<noteq> Black) = (i < lit_count (leds_L (display cfg s)))"
      by (simp only: cnt e)
  qed
  have 2: "\<forall>j<?n. \<forall>i\<le>j. leds_L (display cfg s) ! j \<noteq> Black \<longrightarrow> leds_L (display cfg s) ! i \<noteq> Black"
  proof (intro allI impI)
    fix j i assume "j < ?n" "i \<le> j" "leds_L (display cfg s) ! j \<noteq> Black"
    then have "j < lit_count (leds_L (display cfg s))" using 1 by blast
    then have "i < lit_count (leds_L (display cfg s))" using \<open>i \<le> j\<close> by simp
    then show "leds_L (display cfg s) ! i \<noteq> Black" using 1 \<open>i \<le> j\<close> \<open>j < ?n\<close> by simp
  qed
  have "?P 0" using assms(4) by (simp add: zone_lit)
  then have 3: "0 < lit_count (leds_L (display cfg s))"
    using pre assms(3) unfolding cnt by blast
  have "length (filter ?P [0..<?n]) \<le> length (filter ?P' [0..<?n])"
    using assms(7,8,9) by (intro filter_mono_length) (simp add: zone_lit)
  then have 4: "lit_count (leds_L (display cfg s)) \<le> lit_count (leds_L (display cfg s'))"
    unfolding cnt cnt' .
  have 5: "leds_R (display cfg s) = leds_L (display cfg s)" by (simp add: L R)
  show ?thesis using 1 2 3 4 5 by blast
qed

theorem C3_lit_prefix_witness:
  "(leds_L (display sketch_v0_10 (sampled sketch_v0_10 0 60)) ! 2 \<noteq> Black) =
     (2 < lit_count (leds_L (display sketch_v0_10 (sampled sketch_v0_10 0 60)))) \<and>
   0 < lit_count (leds_L (display sketch_v0_10 (sampled sketch_v0_10 0 60))) \<and>
   lit_count (leds_L (display sketch_v0_10 (sampled sketch_v0_10 0 60)))
     \<le> lit_count (leds_L (display sketch_v0_10 (sampled sketch_v0_10 0 100))) \<and>
   leds_R (display sketch_v0_10 (sampled sketch_v0_10 0 60)) =
     leds_L (display sketch_v0_10 (sampled sketch_v0_10 0 60))"
proof -
  let ?s = "sampled sketch_v0_10 0 60" and ?s' = "sampled sketch_v0_10 0 100"
  have l: "layout_ok sketch_v0_10 ?s"
    by (simp add: layout_ok_def sampled_v0_10) (simp add: sketch_v0_10_def c_div_def)
  have n: "(2::nat) < NUM_LEDS sketch_v0_10" "0 < NUM_LEDS sketch_v0_10"
    by (simp_all add: sketch_v0_10_def)
  have z: "stopdistance ?s < distance ?s" "distance ?s \<le> startdistance sketch_v0_10"
          "stopdistance ?s' = stopdistance ?s" "increment ?s' = increment ?s"
          "distance ?s \<le> distance ?s'" "distance ?s' \<le> startdistance sketch_v0_10"
    by (simp_all add: sampled_v0_10) (simp_all add: sketch_v0_10_def)
  note T = C3_lit_prefix[OF sampled_v0_10(1) l n(2) z(1,2) sampled_v0_10(1) z(3-6)]
  from T have A: "\<forall>i<NUM_LEDS sketch_v0_10.
      (leds_L (display sketch_v0_10 ?s) ! i \<noteq> Black) = (i < lit_count (leds_L (display sketch_v0_10 ?s)))"
    by (rule conjunct1)
  from A n(1) have "(leds_L (display sketch_v0_10 ?s) ! 2 \<noteq> Black) =
      (2 < lit_count (leds_L (display sketch_v0_10 ?s)))" by blast
  then show ?thesis using T by blast
qed

section \<open>The calibration invariant\<close>

text \<open>
  C5, as amended. The invariant \<open>0 < stopdistance < startdistance\<close> holds after \<open>setup\<close> in
  versions 0.10 and 0.8, whose static stop distance is 10. The only code that assigns
  \<open>stopdistance\<close> after \<open>setup\<close> is the button branch. It has no guard: a pass with the
  button pressed sets \<open>stopdistance\<close> to the measured distance, stores it in the EEPROM and
  recomputes \<open>increment\<close> as \<open>(startdistance - stopdistance) / NUM_LEDS\<close>. So the invariant
  holds after such a pass exactly when \<open>0 < distance < startdistance\<close>, and the recomputed
  increment is positive exactly when \<open>distance + NUM_LEDS \<le> startdistance\<close>. A pass without
  the button leaves \<open>stopdistance\<close>, the EEPROM cell and \<open>increment\<close> as they were.
\<close>

theorem C5_calibration:
  "calibration_ok sketch_v0_10 (setup_sketch sketch_v0_10 (power_on sketch_v0_10 ee)) \<and>
   calibration_ok sketch_v0_8 (setup_sketch sketch_v0_8 (power_on sketch_v0_8 ee)) \<and>
   (button_low inp \<longrightarrow>
      stopdistance (loop cfg inp s) = measured inp \<and>
      stopdistance_ee (loop cfg inp s) = word_of_int (measured inp) \<and>
      increment (loop cfg inp s) = c_div (startdistance cfg - measured inp) (int (NUM_LEDS cfg)) \<and>
      calibration_ok cfg (loop cfg inp s) = (0 < measured inp \<and> measured inp < startdistance cfg) \<and>
      (0 < NUM_LEDS cfg \<longrightarrow>
         (0 < increment (loop cfg inp s)) = (measured inp + int (NUM_LEDS cfg) \<le> startdistance cfg))) \<and>
   (\<not> button_low inp \<longrightarrow>
      stopdistance (loop cfg inp s) = stopdistance s \<and>
      stopdistance_ee (loop cfg inp s) = stopdistance_ee s \<and>
      increment (loop cfg inp s) = increment s \<and>
      calibration_ok cfg (loop cfg inp s) = calibration_ok cfg s)"
proof -
  have a: "calibration_ok sketch_v0_10 (setup_sketch sketch_v0_10 (power_on sketch_v0_10 ee))"
    unfolding setup_power_on by (simp add: calibration_ok_def sketch_v0_10_def)
  have b: "calibration_ok sketch_v0_8 (setup_sketch sketch_v0_8 (power_on sketch_v0_8 ee))"
    unfolding setup_power_on by (simp add: calibration_ok_def sketch_v0_8_def)
  have c: "button_low inp \<longrightarrow>
      stopdistance (loop cfg inp s) = measured inp \<and>
      stopdistance_ee (loop cfg inp s) = word_of_int (measured inp) \<and>
      increment (loop cfg inp s) = c_div (startdistance cfg - measured inp) (int (NUM_LEDS cfg)) \<and>
      calibration_ok cfg (loop cfg inp s) = (0 < measured inp \<and> measured inp < startdistance cfg) \<and>
      (0 < NUM_LEDS cfg \<longrightarrow>
         (0 < increment (loop cfg inp s)) = (measured inp + int (NUM_LEDS cfg) \<le> startdistance cfg))"
    by (auto simp: loop_calibration calibration_ok_def c_div_positive)
  have d: "\<not> button_low inp \<longrightarrow>
      stopdistance (loop cfg inp s) = stopdistance s \<and>
      stopdistance_ee (loop cfg inp s) = stopdistance_ee s \<and>
      increment (loop cfg inp s) = increment s \<and>
      calibration_ok cfg (loop cfg inp s) = calibration_ok cfg s"
    by (simp add: loop_calibration calibration_ok_def)
  show ?thesis using a b c d by blast
qed

theorem C5_calibration_witness:
  "calibration_ok sketch_v0_10
      (loop sketch_v0_10 \<lparr>millis_run = 0, millis_start = 0, measured = 25, button_low = True\<rparr>
         (setup_sketch sketch_v0_10 (power_on sketch_v0_10 0))) \<and>
   increment
      (loop sketch_v0_10 \<lparr>millis_run = 0, millis_start = 0, measured = 25, button_low = True\<rparr>
         (setup_sketch sketch_v0_10 (power_on sketch_v0_10 0))) = 12 \<and>
   0 < increment
      (loop sketch_v0_10 \<lparr>millis_run = 0, millis_start = 0, measured = 25, button_low = True\<rparr>
         (setup_sketch sketch_v0_10 (power_on sketch_v0_10 0))) \<and>
   stopdistance
      (loop sketch_v0_10 \<lparr>millis_run = 0, millis_start = 0, measured = 25, button_low = False\<rparr>
         (setup_sketch sketch_v0_10 (power_on sketch_v0_10 0))) = 10"
proof -
  let ?p = "\<lparr>millis_run = 0, millis_start = 0, measured = 25, button_low = True\<rparr>"
  let ?r = "\<lparr>millis_run = 0, millis_start = 0, measured = 25, button_low = False\<rparr>"
  let ?s = "setup_sketch sketch_v0_10 (power_on sketch_v0_10 0)"
  have s: "stopdistance ?s = 10" unfolding setup_power_on by (simp add: sketch_v0_10_def)
  have n: "0 < NUM_LEDS sketch_v0_10" "startdistance sketch_v0_10 = 400" "int (NUM_LEDS sketch_v0_10) = 30"
    by (simp_all add: sketch_v0_10_def)
  from C5_calibration[of 0 ?p sketch_v0_10 ?s] n
  have "calibration_ok sketch_v0_10 (loop sketch_v0_10 ?p ?s)"
       "increment (loop sketch_v0_10 ?p ?s) = 12"
       "0 < increment (loop sketch_v0_10 ?p ?s)"
    by (simp_all add: c_div_def)
  moreover from C5_calibration[of 0 ?r sketch_v0_10 ?s] s
  have "stopdistance (loop sketch_v0_10 ?r ?s) = 10" by simp
  ultimately show ?thesis by simp
qed

text \<open>
  The current version after \<open>setup\<close>: the invariant holds. A pass with the button pressed
  while the sensor reports 0 leaves \<open>stopdistance = 0\<close>; one with the button pressed at
  400 cm leaves \<open>stopdistance = startdistance\<close> and \<open>increment = 0\<close>.
\<close>

theorem C5_counterexample:
  "calibration_ok sketch_v0_10 (setup_sketch sketch_v0_10 (power_on sketch_v0_10 0)) \<and>
   \<not> calibration_ok sketch_v0_10
      (loop sketch_v0_10 \<lparr>millis_run = 0, millis_start = 0, measured = 0, button_low = True\<rparr>
         (setup_sketch sketch_v0_10 (power_on sketch_v0_10 0))) \<and>
   stopdistance
      (loop sketch_v0_10 \<lparr>millis_run = 0, millis_start = 0, measured = 0, button_low = True\<rparr>
         (setup_sketch sketch_v0_10 (power_on sketch_v0_10 0))) = 0 \<and>
   \<not> calibration_ok sketch_v0_10
      (loop sketch_v0_10 \<lparr>millis_run = 0, millis_start = 0, measured = 400, button_low = True\<rparr>
         (setup_sketch sketch_v0_10 (power_on sketch_v0_10 0))) \<and>
   increment
      (loop sketch_v0_10 \<lparr>millis_run = 0, millis_start = 0, measured = 400, button_low = True\<rparr>
         (setup_sketch sketch_v0_10 (power_on sketch_v0_10 0))) = 0"
proof -
  have "calibration_ok sketch_v0_10 (setup_sketch sketch_v0_10 (power_on sketch_v0_10 0))"
    unfolding setup_power_on by (simp add: calibration_ok_def sketch_v0_10_def)
  then show ?thesis
    by (simp add: calibration_ok_def loop_calibration) (simp add: sketch_v0_10_def c_div_def)
qed

section \<open>Loading the calibration at startup\<close>

text \<open>
  C6, as amended. \<open>setup\<close> reads the EEPROM cell only when the static stop distance is 0
  (version 0.6 as shipped; versions 0.8 and 0.10 have a static 10 and never read it), and
  it never writes the cell. What it reads becomes \<open>stopdistance\<close> as it is: there is no test
  of the loaded value and no fallback. So a cell that was never written yields the storage's
  default as the stop distance, the invariant \<open>0 < stopdistance < startdistance\<close> holds after
  \<open>setup\<close> exactly when the loaded value satisfies it, and the increment is derived from the
  loaded value (where \<open>startdistance - stopdistance\<close> fits the 16-bit \<open>int\<close>). With a loaded 0
  the stop distance is 0, the invariant fails, and the increment is
  \<open>startdistance / NUM_LEDS\<close>.
\<close>

theorem C6_load_unvalidated:
  "(stopdistance_static cfg \<noteq> 0 \<longrightarrow>
      stopdistance (setup_sketch cfg (power_on cfg ee)) = stopdistance_static cfg) \<and>
   (stopdistance_static cfg = 0 \<longrightarrow>
      stopdistance (setup_sketch cfg (power_on cfg ee)) = sint ee \<and>
      calibration_ok cfg (setup_sketch cfg (power_on cfg ee)) =
        (0 < sint ee \<and> sint ee < startdistance cfg) \<and>
      (in_int16 (startdistance cfg - sint ee) \<longrightarrow>
         increment (setup_sketch cfg (power_on cfg ee)) =
           c_div (startdistance cfg - sint ee) (int (NUM_LEDS cfg)))) \<and>
   (stopdistance_static cfg = 0 \<and> ee = 0 \<longrightarrow>
      stopdistance (setup_sketch cfg (power_on cfg ee)) = 0 \<and>
      \<not> calibration_ok cfg (setup_sketch cfg (power_on cfg ee)) \<and>
      increment (setup_sketch cfg (power_on cfg ee)) =
        c_div (startdistance cfg) (int (NUM_LEDS cfg))) \<and>
   stopdistance_ee (setup_sketch cfg (power_on cfg ee)) = ee"
proof -
  have 1: "stopdistance_static cfg \<noteq> 0 \<longrightarrow>
      stopdistance (setup_sketch cfg (power_on cfg ee)) = stopdistance_static cfg"
    by (simp add: setup_power_on)
  have 2: "stopdistance_static cfg = 0 \<longrightarrow>
      stopdistance (setup_sketch cfg (power_on cfg ee)) = sint ee \<and>
      calibration_ok cfg (setup_sketch cfg (power_on cfg ee)) =
        (0 < sint ee \<and> sint ee < startdistance cfg) \<and>
      (in_int16 (startdistance cfg - sint ee) \<longrightarrow>
         increment (setup_sketch cfg (power_on cfg ee)) =
           c_div (startdistance cfg - sint ee) (int (NUM_LEDS cfg)))"
    by (simp add: setup_power_on calibration_ok_def)
  have 3: "stopdistance_static cfg = 0 \<and> ee = 0 \<longrightarrow>
      stopdistance (setup_sketch cfg (power_on cfg ee)) = 0 \<and>
      \<not> calibration_ok cfg (setup_sketch cfg (power_on cfg ee)) \<and>
      increment (setup_sketch cfg (power_on cfg ee)) =
        c_div (startdistance cfg) (int (NUM_LEDS cfg))"
    by (simp add: setup_power_on calibration_ok_def)
  have 4: "stopdistance_ee (setup_sketch cfg (power_on cfg ee)) = ee"
    by (simp add: setup_power_on)
  show ?thesis using 1 2 3 4 by blast
qed

lemma v0_6_facts:
  "stopdistance_static sketch_v0_6 = 0" "startdistance sketch_v0_6 = 395"
  "int (NUM_LEDS sketch_v0_6) = 15"
  by (simp_all add: sketch_v0_6_def)

theorem C6_load_unvalidated_witness:
  "stopdistance (setup_sketch sketch_v0_6 (power_on sketch_v0_6 35)) = 35 \<and>
   calibration_ok sketch_v0_6 (setup_sketch sketch_v0_6 (power_on sketch_v0_6 35)) \<and>
   increment (setup_sketch sketch_v0_6 (power_on sketch_v0_6 35)) = 24 \<and>
   stopdistance (setup_sketch sketch_v0_6 (power_on sketch_v0_6 0)) = 0 \<and>
   increment (setup_sketch sketch_v0_6 (power_on sketch_v0_6 0)) = 26 \<and>
   stopdistance (setup_sketch sketch_v0_10 (power_on sketch_v0_10 0)) = 10"
proof -
  have r: "in_int16 (startdistance sketch_v0_6 - sint (35 :: 16 word))"
    by (simp add: in_int16_def v0_6_facts)
  note A = C6_load_unvalidated[of sketch_v0_6 35]
  note B = C6_load_unvalidated[of sketch_v0_6 0]
  note C = C6_load_unvalidated[of sketch_v0_10 0]
  from A r have a: "stopdistance (setup_sketch sketch_v0_6 (power_on sketch_v0_6 35)) = 35"
      "calibration_ok sketch_v0_6 (setup_sketch sketch_v0_6 (power_on sketch_v0_6 35))"
      "increment (setup_sketch sketch_v0_6 (power_on sketch_v0_6 35)) = 24"
    by (simp_all add: v0_6_facts c_div_def)
  from B have b: "stopdistance (setup_sketch sketch_v0_6 (power_on sketch_v0_6 0)) = 0"
      "increment (setup_sketch sketch_v0_6 (power_on sketch_v0_6 0)) = 26"
    by (simp_all add: v0_6_facts c_div_def)
  from C have c: "stopdistance (setup_sketch sketch_v0_10 (power_on sketch_v0_10 0)) = 10"
    by (simp add: sketch_v0_10_def)
  from a b c show ?thesis by blast
qed

text \<open>
  Version 0.6 as shipped. With a cell that holds 0 the loaded 0 is the stop distance after
  \<open>setup\<close> and still after a pass of the loop; with a cell that has all bits set, as an
  erased EEPROM has them, the stop distance is \<open>- 1\<close>. In both cases the invariant of the
  calibration fails: nothing is treated as uncalibrated and replaced.
\<close>

theorem C6_counterexample:
  "stopdistance_static sketch_v0_6 = 0 \<and>
   eeprom_read_word (power_on sketch_v0_6 0) = 0 \<and>
   stopdistance (setup_sketch sketch_v0_6 (power_on sketch_v0_6 0)) = 0 \<and>
   \<not> calibration_ok sketch_v0_6 (setup_sketch sketch_v0_6 (power_on sketch_v0_6 0)) \<and>
   stopdistance (loop sketch_v0_6
      \<lparr>millis_run = 0, millis_start = 30, measured = 5, button_low = False\<rparr>
      (setup_sketch sketch_v0_6 (power_on sketch_v0_6 0))) = 0 \<and>
   stopdistance (setup_sketch sketch_v0_6 (power_on sketch_v0_6 (- 1))) = - 1 \<and>
   \<not> calibration_ok sketch_v0_6 (setup_sketch sketch_v0_6 (power_on sketch_v0_6 (- 1)))"
  unfolding loop_calibration setup_power_on
  by (simp add: calibration_ok_def eeprom_read_word_def power_on_def v0_6_facts)

section \<open>Waking up\<close>

lemma before_display_moved:
  assumes "DISTANCE_TOLERANCE cfg \<le> \<bar>measured inp - previous_distance s\<bar>"
  shows "LED_sleep (before_display cfg inp s) = False"
        "previous_distance (before_display cfg inp s) = measured inp"
        "timer (before_display cfg inp s) = timer_reset (timer (timer_run cfg (millis_run inp) s))"
  using assms
  by (simp_all add: before_display_def check_button_fields check_movement_def timer_run_fields)

text \<open>
  C8. If the sketch is asleep and a pass reads a sample that differs from
  \<open>previous_distance\<close> by at least \<open>DISTANCE_TOLERANCE\<close>, then that same pass clears
  \<open>LED_sleep\<close>, stores the sample as \<open>previous_distance\<close>, leaves the timer reset, and
  computes the display. One such sample suffices.
\<close>

theorem C8_wake_on_movement:
  assumes "LED_sleep s"
      and "DISTANCE_TOLERANCE cfg \<le> \<bar>measured inp - previous_distance s\<bar>"
  shows "\<not> LED_sleep (loop cfg inp s) \<and>
         previous_distance (loop cfg inp s) = measured inp \<and>
         \<not> timer_isRunning (timer (loop cfg inp s)) \<and>
         m_state (timer (loop cfg inp s)) = Idle \<and>
         loop cfg inp s = display cfg (before_display cfg inp s)"
  using before_display_moved[OF assms(2)]
  by (simp add: loop_before_display display_fields timer_isRunning_def timer_reset_def)

theorem C8_wake_on_movement_witness:
  "LED_sleep (sleepmode_start sketch_v0_10 (setup_sketch sketch_v0_10 (power_on sketch_v0_10 0))) \<and>
   \<not> LED_sleep (loop sketch_v0_10
        \<lparr>millis_run = 70000, millis_start = 70030, measured = 100, button_low = False\<rparr>
        (sleepmode_start sketch_v0_10 (setup_sketch sketch_v0_10 (power_on sketch_v0_10 0)))) \<and>
   previous_distance (loop sketch_v0_10
        \<lparr>millis_run = 70000, millis_start = 70030, measured = 100, button_low = False\<rparr>
        (sleepmode_start sketch_v0_10 (setup_sketch sketch_v0_10 (power_on sketch_v0_10 0)))) = 100"
proof -
  let ?s = "sleepmode_start sketch_v0_10 (setup_sketch sketch_v0_10 (power_on sketch_v0_10 0))"
  let ?i = "\<lparr>millis_run = 70000, millis_start = 70030, measured = 100, button_low = False\<rparr>"
  have a: "LED_sleep ?s" by (simp add: sleepmode_start_fields)
  have "previous_distance ?s = 0" by (simp add: sleepmode_start_fields setup_power_on)
  then have b: "DISTANCE_TOLERANCE sketch_v0_10 \<le> \<bar>measured ?i - previous_distance ?s\<bar>"
    by (simp add: sketch_v0_10_def)
  note T = C8_wake_on_movement[OF a b]
  from T have c: "\<not> LED_sleep (loop sketch_v0_10 ?i ?s)" by (rule conjunct1)
  from T have "previous_distance (loop sketch_v0_10 ?i ?s) = measured ?i" by blast
  then have "previous_distance (loop sketch_v0_10 ?i ?s) = 100" by simp
  then show ?thesis using a c by blast
qed

section \<open>The increment at the display computation\<close>

lemma setup_layout_ok: "layout_ok cfg (setup_sketch cfg s0)"
  by (cases "ver cfg") (simp_all add: setup_sketch_def layout_ok_def Let_def fill_leds_fields)

lemma run_invariant:
  assumes "\<And>s inp. P s \<Longrightarrow> P (loop cfg inp s)" and "P s"
  shows "P (run cfg inps s)"
  using assms(2)
proof (induction inps arbitrary: s)
  case Nil
  then show ?case by simp
next
  case (Cons inp inps)
  from Cons.prems have "P (loop cfg inp s)" by (rule assms(1))
  then have "P (run cfg inps (loop cfg inp s))" by (rule Cons.IH)
  then show ?case by simp
qed

lemma reached_layout_ok: "layout_ok cfg (reached cfg ee inps)"
  unfolding reached_def
proof (rule run_invariant)
  show "layout_ok cfg (setup_sketch cfg (power_on cfg ee))" by (rule setup_layout_ok)
next
  fix s inp assume "layout_ok cfg s"
  then show "layout_ok cfg (loop cfg inp s)"
    by (simp add: layout_ok_def loop_calibration)
qed

text \<open>
  C9. \<open>increment = (startdistance - stopdistance) / NUM_LEDS\<close> holds after \<open>setup\<close>; a pass
  in which the button sets \<open>stopdistance\<close> has recomputed \<open>increment\<close> from the new value when
  it reaches the display computation; and a pass that starts with the equation reaches the
  display computation with it and ends with it. So in every pass the sketch can make after
  power on, the equation holds when the display is computed, and the display is computed
  from exactly that state.
\<close>

theorem C9_increment_fresh:
  "layout_ok cfg (setup_sketch cfg s0) \<and>
   (button_low inp \<longrightarrow>
      stopdistance (before_display cfg inp s) = measured inp \<and>
      layout_ok cfg (before_display cfg inp s)) \<and>
   (layout_ok cfg s \<longrightarrow>
      layout_ok cfg (before_display cfg inp s) \<and> layout_ok cfg (loop cfg inp s)) \<and>
   layout_ok cfg (before_display cfg inp (reached cfg ee inps)) \<and>
   loop cfg inp s =
     (if \<not> LED_sleep (before_display cfg inp s)
      then display cfg (before_display cfg inp s) else before_display cfg inp s)"
proof -
  have 1: "button_low inp \<longrightarrow>
      stopdistance (before_display cfg inp s) = measured inp \<and>
      layout_ok cfg (before_display cfg inp s)"
    by (simp add: layout_ok_def before_display_calibration)
  have 2: "layout_ok cfg s \<longrightarrow>
      layout_ok cfg (before_display cfg inp s) \<and> layout_ok cfg (loop cfg inp s)"
    by (simp add: layout_ok_def before_display_calibration loop_calibration)
  have 3: "layout_ok cfg (before_display cfg inp (reached cfg ee inps))"
    using reached_layout_ok[of cfg ee inps]
    by (simp add: layout_ok_def before_display_calibration)
  show ?thesis using setup_layout_ok 1 2 3 loop_before_display by blast
qed

theorem C9_increment_fresh_witness:
  "layout_ok sketch_v0_10 (setup_sketch sketch_v0_10 (power_on sketch_v0_10 0)) \<and>
   stopdistance (before_display sketch_v0_10
        \<lparr>millis_run = 0, millis_start = 30, measured = 40, button_low = True\<rparr>
        (setup_sketch sketch_v0_10 (power_on sketch_v0_10 0))) = 40 \<and>
   increment (before_display sketch_v0_10
        \<lparr>millis_run = 0, millis_start = 30, measured = 40, button_low = True\<rparr>
        (setup_sketch sketch_v0_10 (power_on sketch_v0_10 0))) = 12 \<and>
   layout_ok sketch_v0_10 (loop sketch_v0_10
        \<lparr>millis_run = 0, millis_start = 30, measured = 40, button_low = True\<rparr>
        (setup_sketch sketch_v0_10 (power_on sketch_v0_10 0)))"
proof -
  let ?s = "setup_sketch sketch_v0_10 (power_on sketch_v0_10 0)"
  let ?i = "\<lparr>millis_run = 0, millis_start = 30, measured = 40, button_low = True\<rparr>"
  note T = C9_increment_fresh[of sketch_v0_10 "power_on sketch_v0_10 0" ?i ?s]
  from T have a: "layout_ok sketch_v0_10 ?s" by (rule conjunct1)
  from T have b: "stopdistance (before_display sketch_v0_10 ?i ?s) = 40"
             and c: "layout_ok sketch_v0_10 (before_display sketch_v0_10 ?i ?s)" by simp_all
  from T a have d: "layout_ok sketch_v0_10 (loop sketch_v0_10 ?i ?s)" by blast
  from c b have "increment (before_display sketch_v0_10 ?i ?s) = 12"
    by (simp add: layout_ok_def sketch_v0_10_def c_div_def)
  then show ?thesis using a b d by simp
qed

section \<open>Both strips show the same\<close>

lemma timer_run_buffers_ok: "buffers_ok cfg s \<Longrightarrow> buffers_ok cfg (timer_run cfg now s)"
  using timer_run_leds[of cfg s now] by (simp add: buffers_ok_def)

lemma before_display_leds:
  "leds_L (before_display cfg inp s) = leds_L (timer_run cfg (millis_run inp) s)"
  "leds_R (before_display cfg inp s) = leds_R (timer_run cfg (millis_run inp) s)"
  by (simp_all add: before_display_def check_button_fields check_movement_fields)

lemma before_display_buffers_ok: "buffers_ok cfg s \<Longrightarrow> buffers_ok cfg (before_display cfg inp s)"
  using timer_run_buffers_ok[of cfg s "millis_run inp"]
  by (simp add: buffers_ok_def before_display_leds)

lemma display_same:
  "buffers_ok cfg s \<Longrightarrow> leds_L (display cfg s) = leds_R (display cfg s)"
  by (simp add: display_def fill_leds_all buffers_ok_def)

lemma display_buffers_ok: "buffers_ok cfg s \<Longrightarrow> buffers_ok cfg (display cfg s)"
  by (simp add: display_def fill_leds_all buffers_ok_def)

lemma loop_buffers_ok: "buffers_ok cfg s \<Longrightarrow> buffers_ok cfg (loop cfg inp s)"
  by (simp add: loop_before_display before_display_buffers_ok display_buffers_ok)

lemma loop_strips_equal:
  assumes "buffers_ok cfg s" "leds_L s = leds_R s"
  shows "leds_L (loop cfg inp s) = leds_R (loop cfg inp s)"
proof -
  have b: "buffers_ok cfg (before_display cfg inp s)"
    using assms(1) by (rule before_display_buffers_ok)
  show ?thesis
    using display_same[OF b] timer_run_leds[OF assms(1), of "millis_run inp"] assms(2)
    by (simp add: loop_before_display before_display_leds)
qed

lemma reached_buffers_ok: "buffers_ok cfg (reached cfg ee inps)"
  unfolding reached_def
proof (rule run_invariant)
  show "buffers_ok cfg (setup_sketch cfg (power_on cfg ee))"
    by (simp add: setup_power_on buffers_ok_def)
qed (rule loop_buffers_ok)

lemma reached_strips_equal: "leds_L (reached cfg ee inps) = leds_R (reached cfg ee inps)"
proof -
  have "buffers_ok cfg (reached cfg ee inps) \<and> leds_L (reached cfg ee inps) = leds_R (reached cfg ee inps)"
    unfolding reached_def
  proof (rule run_invariant[where P = "\<lambda>s. buffers_ok cfg s \<and> leds_L s = leds_R s"])
    show "buffers_ok cfg (setup_sketch cfg (power_on cfg ee)) \<and>
          leds_L (setup_sketch cfg (power_on cfg ee)) = leds_R (setup_sketch cfg (power_on cfg ee))"
      by (simp add: setup_power_on buffers_ok_def)
  next
    fix s inp assume "buffers_ok cfg s \<and> leds_L s = leds_R s"
    then show "buffers_ok cfg (loop cfg inp s) \<and> leds_L (loop cfg inp s) = leds_R (loop cfg inp s)"
      using loop_buffers_ok[of cfg s inp] loop_strips_equal[of cfg s inp] by blast
  qed
  then show ?thesis by blast
qed

text \<open>
  C10. After the blanking at sleep entry, after the display computation in any zone, and
  after any pass of the loop that ends awake, the left and the right buffer hold the same
  colour at every index; a pass that starts with equal buffers ends with equal buffers; and
  in every state the sketch reaches after power on the two buffers are equal and hold
  \<open>NUM_LEDS\<close> colours each. This holds for every configuration, so for either value of
  \<open>mirror_LEDs\<close>, and for all three versions.
\<close>

theorem C10_strips_identical:
  assumes "buffers_ok cfg s"
  shows "leds_L (sleepmode_start cfg s) = leds_R (sleepmode_start cfg s) \<and>
         leds_L (display cfg s) = leds_R (display cfg s) \<and>
         (\<not> LED_sleep (loop cfg inp s) \<longrightarrow> leds_L (loop cfg inp s) = leds_R (loop cfg inp s)) \<and>
         (leds_L s = leds_R s \<longrightarrow> leds_L (loop cfg inp s) = leds_R (loop cfg inp s)) \<and>
         buffers_ok cfg (loop cfg inp s) \<and>
         buffers_ok cfg (reached cfg ee inps) \<and>
         leds_L (reached cfg ee inps) = leds_R (reached cfg ee inps)"
proof -
  have 1: "leds_L (sleepmode_start cfg s) = leds_R (sleepmode_start cfg s)"
    using sleepmode_start_leds[OF assms] by simp
  have 2: "leds_L (display cfg s) = leds_R (display cfg s)"
    using assms by (rule display_same)
  have b: "buffers_ok cfg (before_display cfg inp s)"
    using assms by (rule before_display_buffers_ok)
  have 4: "\<not> LED_sleep (loop cfg inp s) \<longrightarrow> leds_L (loop cfg inp s) = leds_R (loop cfg inp s)"
    using display_same[OF b] by (simp add: loop_before_display display_fields)
  have 5: "leds_L s = leds_R s \<longrightarrow> leds_L (loop cfg inp s) = leds_R (loop cfg inp s)"
    using loop_strips_equal[OF assms] by blast
  have 6: "buffers_ok cfg (loop cfg inp s)" using assms by (rule loop_buffers_ok)
  show ?thesis
    using 1 2 4 5 6 reached_buffers_ok[of cfg ee inps] reached_strips_equal[of cfg ee inps]
    by blast
qed

theorem C10_strips_identical_witness:
  "buffers_ok sketch_v0_8 (sampled sketch_v0_8 0 30) \<and>
   leds_L (sleepmode_start sketch_v0_8 (sampled sketch_v0_8 0 30)) =
     leds_R (sleepmode_start sketch_v0_8 (sampled sketch_v0_8 0 30)) \<and>
   leds_L (display sketch_v0_8 (sampled sketch_v0_8 0 30)) =
     leds_R (display sketch_v0_8 (sampled sketch_v0_8 0 30)) \<and>
   leds_L (loop sketch_v0_8 \<lparr>millis_run = 0, millis_start = 30, measured = 40, button_low = False\<rparr>
             (sampled sketch_v0_8 0 30)) =
     leds_R (loop sketch_v0_8 \<lparr>millis_run = 0, millis_start = 30, measured = 40, button_low = False\<rparr>
             (sampled sketch_v0_8 0 30))"
proof -
  have e: "leds_L (sampled sketch_v0_8 0 30) = leds_R (sampled sketch_v0_8 0 30)"
    by (simp add: sampled_eq)
  show ?thesis
    using C10_strips_identical[OF sampled_v0_8(1), of 0 30
        "\<lparr>millis_run = 0, millis_start = 30, measured = 40, button_low = False\<rparr>"] e
      sampled_v0_8(1)[of 0 30]
    by blast
qed

section \<open>The arithmetic stays inside 16 bits\<close>

text \<open>
  In the current version, with samples and stop distance between 0 and \<open>MAX_DISTANCE = 400\<close>
  and the increment derived from the stop distance, every integer expression of the loop
  has a value that a 16-bit \<open>int\<close> holds, so the mathematical integers of this theory
  compute what the board computes.
\<close>

lemma c_div_bounds:
  assumes "0 \<le> a" "a \<le> 400"
  shows "0 \<le> c_div a 30 \<and> c_div a 30 \<le> 13"
proof -
  have "c_div a 30 = a div 30" using assms by (simp add: c_div_pos)
  then show ?thesis using assms by simp linarith
qed

lemma sensor_range_fits_int16:
  assumes "0 \<le> distance s" "distance s \<le> 400"
      and "0 \<le> previous_distance s" "previous_distance s \<le> 400"
      and "0 \<le> stopdistance s" "stopdistance s \<le> 400"
      and "layout_ok sketch_v0_10 s" "i < NUM_LEDS sketch_v0_10"
  shows "in_int16 (distance s - previous_distance s) \<and>
         in_int16 (startdistance sketch_v0_10 - stopdistance s) \<and>
         in_int16 (increment s) \<and>
         in_int16 (increment s * int i) \<and>
         in_int16 (stopdistance s + increment s * int i) \<and>
         in_int16 (AMBER_LEDS sketch_v0_10 * increment s) \<and>
         in_int16 (stopdistance s + AMBER_LEDS sketch_v0_10 * increment s)"
proof -
  have inc: "0 \<le> increment s \<and> increment s \<le> 13"
    using assms(5,6,7) c_div_bounds[of "400 - stopdistance s"]
    by (simp add: layout_ok_def sketch_v0_10_def)
  have i: "int i \<le> 29" using assms(8) by (simp add: sketch_v0_10_def)
  have hi: "increment s * int i \<le> 13 * 29"
    using inc i by (intro mult_mono) simp_all
  have lo: "0 \<le> increment s * int i" using inc by simp
  have a: "AMBER_LEDS sketch_v0_10 * increment s = 5 * increment s"
    and b: "startdistance sketch_v0_10 = 400"
    by (simp_all add: sketch_v0_10_def)
  have 1: "in_int16 (distance s - previous_distance s)"
    unfolding in_int16_def using assms(1-4) by linarith
  have 2: "in_int16 (startdistance sketch_v0_10 - stopdistance s)"
    unfolding in_int16_def b using assms(5,6) by linarith
  have 3: "in_int16 (increment s)"
    unfolding in_int16_def using inc by linarith
  have 4: "in_int16 (increment s * int i)"
    unfolding in_int16_def using hi lo by linarith
  have 5: "in_int16 (stopdistance s + increment s * int i)"
    unfolding in_int16_def using hi lo assms(5,6) by linarith
  have 6: "in_int16 (AMBER_LEDS sketch_v0_10 * increment s)"
    unfolding in_int16_def a using inc by linarith
  have 7: "in_int16 (stopdistance s + AMBER_LEDS sketch_v0_10 * increment s)"
    unfolding in_int16_def a using inc assms(5,6) by linarith
  show ?thesis using 1 2 3 4 5 6 7 by blast
qed

section \<open>The idle timer fires once\<close>

lemma tick_due_iff:
  "fst (timer_tick now t) = (m_state t = Running \<and> m_started t + m_interval t \<le> now)"
  by (simp add: timer_tick_def)

lemma timer_run_not_due:
  assumes "\<not> fst (timer_tick now (timer s))"
  shows "timer_run cfg now s = s"
proof -
  from assms have "timer_tick now (timer s) = (False, timer s)"
    by (cases "m_state (timer s) = Running \<and> m_started (timer s) + m_interval (timer s) \<le> now")
       (simp_all add: timer_tick_def)
  then show ?thesis by (simp add: timer_run_def)
qed

lemma timer_run_due:
  assumes "fst (timer_tick now (timer s))"
  shows "m_state (timer (timer_run cfg now s)) = Idle \<and> LED_sleep (timer_run cfg now s)"
proof -
  from assms have "timer_tick now (timer s) = (True, (timer s)\<lparr>m_state := Expired_handled\<rparr>)"
    by (cases "m_state (timer s) = Running \<and> m_started (timer s) + m_interval (timer s) \<le> now")
       (simp_all add: timer_tick_def)
  then show ?thesis by (simp add: timer_run_def sleepmode_start_fields timer_reset_def)
qed

lemma ticks_dormant:
  "m_state (timer s) \<noteq> Running \<Longrightarrow> ticks cfg ts s = (0, s)"
proof (induction ts)
  case Nil
  then show ?case by simp
next
  case (Cons t ts)
  have nd: "\<not> fst (timer_tick t (timer s))" using Cons.prems by (simp add: tick_due_iff)
  then have "timer_run cfg t s = s" by (rule timer_run_not_due)
  then show ?case using Cons nd by simp
qed

lemma ticks_step_due:
  assumes "fst (timer_tick t (timer s))"
  shows "ticks cfg (t # ts) s = (1, timer_run cfg t s)"
proof -
  have "m_state (timer (timer_run cfg t s)) \<noteq> Running"
    using timer_run_due[OF assms, of cfg] by simp
  then have "ticks cfg ts (timer_run cfg t s) = (0, timer_run cfg t s)" by (rule ticks_dormant)
  then show ?thesis using assms by simp
qed

lemma ticks_step_not_due:
  assumes "\<not> fst (timer_tick t (timer s))"
  shows "ticks cfg (t # ts) s = ticks cfg ts s"
  using assms timer_run_not_due[OF assms, of cfg] by (simp add: case_prod_unfold)

lemma ticks_at_most_once: "fst (ticks cfg ts s) \<le> 1"
proof (induction ts)
  case Nil
  then show ?case by simp
next
  case (Cons t ts)
  show ?case
  proof (cases "fst (timer_tick t (timer s))")
    case True
    show ?thesis using ticks_step_due[OF True, of cfg ts] by simp
  next
    case False
    show ?thesis using Cons ticks_step_not_due[OF False, of cfg ts] by simp
  qed
qed

lemma ticks_fires:
  assumes "m_state (timer s) = Running"
      and "\<exists>t\<in>set ts. m_started (timer s) + m_interval (timer s) \<le> t"
  shows "fst (ticks cfg ts s) = 1"
  using assms(2)
proof (induction ts)
  case Nil
  then show ?case by simp
next
  case (Cons t ts)
  show ?case
  proof (cases "fst (timer_tick t (timer s))")
    case True
    show ?thesis using ticks_step_due[OF True, of cfg ts] by simp
  next
    case False
    then have "\<not> m_started (timer s) + m_interval (timer s) \<le> t"
      using assms(1) by (simp add: tick_due_iff)
    then have "\<exists>t\<in>set ts. m_started (timer s) + m_interval (timer s) \<le> t"
      using Cons.prems by simp
    then have "fst (ticks cfg ts s) = 1" by (rule Cons.IH)
    then show ?thesis using ticks_step_not_due[OF False, of cfg ts] by simp
  qed
qed

lemma ticks_fired_state:
  "fst (ticks cfg ts s) = 1 \<Longrightarrow>
   m_state (timer (snd (ticks cfg ts s))) = Idle \<and> LED_sleep (snd (ticks cfg ts s))"
proof (induction ts)
  case Nil
  then show ?case by simp
next
  case (Cons t ts)
  show ?case
  proof (cases "fst (timer_tick t (timer s))")
    case True
    show ?thesis using timer_run_due[OF True, of cfg] ticks_step_due[OF True, of cfg ts] by simp
  next
    case False
    show ?thesis using Cons ticks_step_not_due[OF False, of cfg ts] by simp
  qed
qed

lemma ticks_not_yet:
  assumes "\<forall>t\<in>set ts. t < m_started (timer s) + m_interval (timer s)"
  shows "fst (ticks cfg ts s) = 0"
  using assms
proof (induction ts)
  case Nil
  then show ?case by simp
next
  case (Cons t ts)
  have nd: "\<not> fst (timer_tick t (timer s))" using Cons.prems by (simp add: tick_due_iff)
  have "fst (ticks cfg ts s) = 0" using Cons by simp
  then show ?case using ticks_step_not_due[OF nd, of cfg ts] by simp
qed

lemma loop_stays_asleep:
  assumes "LED_sleep s" "\<not> timer_isRunning (timer s)"
      and "\<bar>measured inp - previous_distance s\<bar> < DISTANCE_TOLERANCE cfg"
  shows "LED_sleep (loop cfg inp s) \<and> \<not> timer_isRunning (timer (loop cfg inp s)) \<and>
         timer (loop cfg inp s) = timer s"
proof -
  have nd: "\<not> fst (timer_tick (millis_run inp) (timer s))"
    using assms(2) by (simp add: tick_due_iff timer_isRunning_def)
  have "timer_run cfg (millis_run inp) s = s" using nd by (rule timer_run_not_due)
  then have b: "LED_sleep (before_display cfg inp s)" "timer (before_display cfg inp s) = timer s"
    using assms by (simp_all add: before_display_def check_button_fields check_movement_def)
  then show ?thesis using assms(2) by (simp add: loop_before_display)
qed

lemma first_stable_pass:
  "timer (loop sketch_v0_10
      \<lparr>millis_run = 900, millis_start = 1000, measured = 2, button_low = False\<rparr>
      (setup_sketch sketch_v0_10 (power_on sketch_v0_10 0))) =
   \<lparr>m_state = Running, m_interval = 60000, m_started = 1000\<rparr>"
proof -
  let ?s = "setup_sketch sketch_v0_10 (power_on sketch_v0_10 0)"
  have t: "timer ?s = \<lparr>m_state = Idle, m_interval = 60000, m_started = 0\<rparr>"
    and p: "previous_distance ?s = 0" and a: "\<not> LED_sleep ?s"
    unfolding setup_power_on by (simp_all add: sketch_v0_10_def)
  have "\<not> fst (timer_tick 900 (timer ?s))" by (simp add: t tick_due_iff)
  then have "timer_run sketch_v0_10 900 ?s = ?s" by (rule timer_run_not_due)
  then show ?thesis using t p a
    by (simp add: loop_before_display display_fields before_display_def check_button_fields
        check_movement_def timer_isRunning_def timer_start_def)
       (simp add: sketch_v0_10_def)
qed

text \<open>
  C7. Over any sequence of \<open>timer.run()\<close> calls with no start in between, the callback
  \<open>sleepmode_start\<close> runs at most once. If the timer is running and one of the calls comes
  at or after the start time plus the interval, it runs exactly once; if all of them come
  earlier, it does not run. After it has run the
  timer is not running and the sketch is asleep; a timer that is not running never fires;
  and a pass of the loop whose sample is within tolerance leaves a sleeping sketch asleep
  with its timer stopped, so the timer is started again only after a movement has reset it.
\<close>

theorem C7_timer_fires_once:
  "fst (ticks cfg ts s) \<le> 1 \<and>
   (m_state (timer s) = Running \<and> (\<exists>t\<in>set ts. m_started (timer s) + m_interval (timer s) \<le> t) \<longrightarrow>
      fst (ticks cfg ts s) = 1) \<and>
   ((\<forall>t\<in>set ts. t < m_started (timer s) + m_interval (timer s)) \<longrightarrow>
      fst (ticks cfg ts s) = 0) \<and>
   (fst (ticks cfg ts s) = 1 \<longrightarrow>
      \<not> timer_isRunning (timer (snd (ticks cfg ts s))) \<and> LED_sleep (snd (ticks cfg ts s))) \<and>
   (\<not> timer_isRunning (timer s) \<longrightarrow> fst (ticks cfg ts s) = 0) \<and>
   (LED_sleep s \<and> \<not> timer_isRunning (timer s) \<and>
    \<bar>measured inp - previous_distance s\<bar> < DISTANCE_TOLERANCE cfg \<longrightarrow>
      LED_sleep (loop cfg inp s) \<and> \<not> timer_isRunning (timer (loop cfg inp s)))"
proof -
  have 3: "fst (ticks cfg ts s) = 1 \<longrightarrow>
      \<not> timer_isRunning (timer (snd (ticks cfg ts s))) \<and> LED_sleep (snd (ticks cfg ts s))"
    using ticks_fired_state[of cfg ts s] by (simp add: timer_isRunning_def)
  have 4: "\<not> timer_isRunning (timer s) \<longrightarrow> fst (ticks cfg ts s) = 0"
    using ticks_dormant[of s cfg ts] by (simp add: timer_isRunning_def)
  have 5: "(\<forall>t\<in>set ts. t < m_started (timer s) + m_interval (timer s)) \<longrightarrow>
      fst (ticks cfg ts s) = 0"
    using ticks_not_yet[of ts s cfg] by blast
  show ?thesis
    using ticks_at_most_once[of cfg ts s] ticks_fires[of s ts cfg] 3 4 5 loop_stays_asleep[of s inp cfg]
    by blast
qed

theorem C7_timer_fires_once_witness:
  "m_state (timer (loop sketch_v0_10
      \<lparr>millis_run = 900, millis_start = 1000, measured = 2, button_low = False\<rparr>
      (setup_sketch sketch_v0_10 (power_on sketch_v0_10 0)))) = Running \<and>
   fst (ticks sketch_v0_10 [1050, 30000, 60999]
     (loop sketch_v0_10
      \<lparr>millis_run = 900, millis_start = 1000, measured = 2, button_low = False\<rparr>
      (setup_sketch sketch_v0_10 (power_on sketch_v0_10 0)))) = 0 \<and>
   fst (ticks sketch_v0_10 [1050, 30000, 61000, 61050, 200000]
     (loop sketch_v0_10
      \<lparr>millis_run = 900, millis_start = 1000, measured = 2, button_low = False\<rparr>
      (setup_sketch sketch_v0_10 (power_on sketch_v0_10 0)))) = 1 \<and>
   LED_sleep (snd (ticks sketch_v0_10 [1050, 30000, 61000, 61050, 200000]
     (loop sketch_v0_10
      \<lparr>millis_run = 900, millis_start = 1000, measured = 2, button_low = False\<rparr>
      (setup_sketch sketch_v0_10 (power_on sketch_v0_10 0)))))"
proof -
  let ?s = "loop sketch_v0_10
      \<lparr>millis_run = 900, millis_start = 1000, measured = 2, button_low = False\<rparr>
      (setup_sketch sketch_v0_10 (power_on sketch_v0_10 0))"
  let ?ts = "[1050, 30000, 61000, 61050, 200000::nat]"
  let ?us = "[1050, 30000, 60999::nat]"
  have r: "m_state (timer ?s) = Running" by (simp add: first_stable_pass)
  have d: "\<exists>t\<in>set ?ts. m_started (timer ?s) + m_interval (timer ?s) \<le> t"
    by (simp add: first_stable_pass)
  have e: "\<forall>t\<in>set ?us. t < m_started (timer ?s) + m_interval (timer ?s)"
    by (simp add: first_stable_pass)
  note T = C7_timer_fires_once[of sketch_v0_10 ?ts ?s]
  note U = C7_timer_fires_once[of sketch_v0_10 ?us ?s]
  from T r d have 1: "fst (ticks sketch_v0_10 ?ts ?s) = 1" by blast
  with T have 2: "LED_sleep (snd (ticks sketch_v0_10 ?ts ?s))" by blast
  from U e have 3: "fst (ticks sketch_v0_10 ?us ?s) = 0" by blast
  from r 1 2 3 show ?thesis by blast
qed

end
